theory Spec2Isabelle
  imports Complex_Main
begin

section \<open>Vectors\<close>

text \<open>
  The engine computes on \<^verbatim>\<open>glm::vec3\<close>, three single-precision floats. The model idealises
  every \<^verbatim>\<open>float\<close> as a \<^typ>\<open>real\<close>: rounding, infinities and NaN are outside the model.
  Two places of the source leave the reals on inputs the types allow, a division by a zero
  mass and \<^verbatim>\<open>glm::normalize\<close> of the zero vector (both NaN or infinite in the program, both
  \<open>0\<close> in HOL). A theorem below whose conclusion rests on the value of such a quotient
  excludes the input by a hypothesis (positive masses, distinct centres); the others hold
  whatever real value the quotient has, and speak of the program where its numbers are
  finite.
\<close>

datatype vec3 = Vec3 (vx: real) (vy: real) (vz: real)

definition vzero :: vec3 where
  "vzero = Vec3 0 0 0"

definition vadd :: "vec3 \<Rightarrow> vec3 \<Rightarrow> vec3" where
  "vadd a b = Vec3 (vx a + vx b) (vy a + vy b) (vz a + vz b)"

definition vsub :: "vec3 \<Rightarrow> vec3 \<Rightarrow> vec3" where
  "vsub a b = Vec3 (vx a - vx b) (vy a - vy b) (vz a - vz b)"

definition smul :: "vec3 \<Rightarrow> real \<Rightarrow> vec3" where
  "smul a k = Vec3 (vx a * k) (vy a * k) (vz a * k)"

definition sdiv :: "vec3 \<Rightarrow> real \<Rightarrow> vec3" where
  "sdiv a k = Vec3 (vx a / k) (vy a / k) (vz a / k)"

definition dot :: "vec3 \<Rightarrow> vec3 \<Rightarrow> real" where
  "dot a b = vx a * vx b + vy a * vy b + vz a * vz b"

text \<open>\<^verbatim>\<open>glm::length(v)\<close> is \<^verbatim>\<open>sqrt(dot(v, v))\<close>.\<close>

definition vlength :: "vec3 \<Rightarrow> real" where
  "vlength a = sqrt (dot a a)"

text \<open>\<^verbatim>\<open>glm::normalize(v)\<close> is \<^verbatim>\<open>v * inversesqrt(dot(v, v))\<close>.\<close>

definition normalize_vec :: "vec3 \<Rightarrow> vec3" where
  "normalize_vec a = smul a (1 / sqrt (dot a a))"

section \<open>The collision engine\<close>

subsection \<open>Globals\<close>

text \<open>
  \<^verbatim>\<open>simulationSpeed\<close> and \<^verbatim>\<open>G\<close> are mutable globals of the source that no statement
  assigns after their initialisation.
\<close>

definition simulationSpeed :: real where
  "simulationSpeed = 1"

definition G :: real where
  "G = 6674 / 1000"

definition MAX_TIMESTEP :: real where
  "MAX_TIMESTEP = 1 / 1000"

subsection \<open>Bodies\<close>

record Object3D =
  position :: vec3
  velocity :: vec3
  acceleration :: vec3
  color :: vec3
  radius :: real
  mass :: real
  fixed :: bool
  trail :: "vec3 list"

definition maxTrailLength :: nat where
  "maxTrailLength = 1000"

text \<open>
  The program state the physics reads and writes: the vector of bodies, the pause flag and
  the function-local static \<^verbatim>\<open>trailCounter\<close> of \<^verbatim>\<open>updatePosition\<close>, one counter shared by
  all bodies. The counter is an unbounded integer here; the source's \<^verbatim>\<open>int\<close> overflows
  after \<open>2^31\<close> integration calls, which the model does not follow.
\<close>

record world =
  objects :: "Object3D list"
  isPaused :: bool
  trailCounter :: int

definition applyForce :: "Object3D \<Rightarrow> vec3 \<Rightarrow> Object3D" where
  "applyForce obj force =
     (if fixed obj then obj
      else obj\<lparr>acceleration := vadd (acceleration obj) (sdiv force (mass obj))\<rparr>)"

text \<open>The timestep the integrator really uses.\<close>

definition actualDt :: "real \<Rightarrow> real" where
  "actualDt dt = min dt MAX_TIMESTEP"

text \<open>
  \<^verbatim>\<open>updatePosition\<close> takes the pause flag and the shared counter and returns the body with
  the counter. The test \<^verbatim>\<open>trailCounter % 3 == 0\<close> asks for divisibility, where C++'s
  truncated remainder and \<open>mod\<close> agree.
\<close>

definition updatePosition :: "bool \<Rightarrow> real \<Rightarrow> Object3D \<times> int \<Rightarrow> Object3D \<times> int" where
  "updatePosition paused dt oc =
     (let obj = fst oc; counter = snd oc in
      if fixed obj \<or> paused then (obj, counter)
      else
        let v = vadd (velocity obj) (smul (acceleration obj) (actualDt dt));
            p = vadd (position obj) (smul v (actualDt dt));
            counter' = counter + 1;
            t = (if counter' mod 3 = 0
                 then (let pushed = trail obj @ [p]
                       in if length pushed > maxTrailLength then tl pushed else pushed)
                 else trail obj)
        in (obj\<lparr>velocity := v, position := p, trail := t, acceleration := vzero\<rparr>, counter'))"

text \<open>
  The force of \<open>other\<close> on \<open>this\<close>, for two distinct bodies; the guard
  \<^verbatim>\<open>&other == this\<close> is the index test of \<open>calculateGravitationalForce\<close> below.
\<close>

definition gravitationalForce :: "Object3D \<Rightarrow> Object3D \<Rightarrow> vec3" where
  "gravitationalForce this other =
     (let direction = vsub (position other) (position this);
          distance = vlength direction;
          minDistance = (radius this + radius other) * 2;
          distance = max distance minDistance;
          forceMagnitude = G * mass this * mass other / (distance * distance)
      in smul (normalize_vec direction) forceMagnitude)"

text \<open>
  \<^verbatim>\<open>objects[i].calculateGravitationalForce(objects[j])\<close> on the vector of bodies: the two
  references alias exactly when \<open>i = j\<close>.
\<close>

definition calculateGravitationalForce :: "Object3D list \<Rightarrow> nat \<Rightarrow> nat \<Rightarrow> Object3D list" where
  "calculateGravitationalForce objs i j =
     (if j = i then objs
      else objs[i := applyForce (objs ! i) (gravitationalForce (objs ! i) (objs ! j))])"

definition CheckCollision :: "Object3D \<Rightarrow> Object3D \<Rightarrow> bool" where
  "CheckCollision a b =
     (vlength (vsub (position b) (position a)) \<le> radius a + radius b)"

text \<open>
  The first locals of \<^verbatim>\<open>ResolveCollision\<close>, named so that statements can speak of them:
  the overlap, the collision normal with its fallback axis, and the relative velocity along
  the normal.
\<close>

definition overlap :: "Object3D \<Rightarrow> Object3D \<Rightarrow> real" where
  "overlap a b = radius a + radius b - vlength (vsub (position b) (position a))"

definition collisionNormal :: "Object3D \<Rightarrow> Object3D \<Rightarrow> vec3" where
  "collisionNormal a b =
     (let delta = vsub (position b) (position a);
          dist = vlength delta
      in if dist > 1 / 1000 then normalize_vec delta else Vec3 1 0 0)"

definition velAlongNormal :: "Object3D \<Rightarrow> Object3D \<Rightarrow> real" where
  "velAlongNormal a b = dot (vsub (velocity b) (velocity a)) (collisionNormal a b)"

text \<open>
  \<^verbatim>\<open>ResolveCollision(a, b)\<close> for two distinct bodies, returning both. The early
  \<^verbatim>\<open>return\<close> on separating velocities keeps the corrected positions.
\<close>

definition ResolveCollision :: "Object3D \<Rightarrow> Object3D \<Rightarrow> Object3D \<times> Object3D" where
  "ResolveCollision a b =
     (if overlap a b > 0 then
        let separation = smul (collisionNormal a b) (overlap a b);
            totalMass = mass a + mass b;
            ratioA = mass b / totalMass;
            ratioB = mass a / totalMass;
            a1 = (if \<not> fixed a \<and> \<not> fixed b
                    then a\<lparr>position := vsub (position a) (smul separation ratioA)\<rparr>
                  else if fixed a \<and> \<not> fixed b then a
                  else if \<not> fixed a \<and> fixed b
                    then a\<lparr>position := vsub (position a) separation\<rparr>
                  else a);
            b1 = (if \<not> fixed a \<and> \<not> fixed b
                    then b\<lparr>position := vadd (position b) (smul separation ratioB)\<rparr>
                  else if fixed a \<and> \<not> fixed b
                    then b\<lparr>position := vadd (position b) separation\<rparr>
                  else b)
        in if velAlongNormal a b > 0 then (a1, b1)
           else
             let e = 8 / 10;
                 invMassA = (if fixed a then 0 else 1 / mass a);
                 invMassB = (if fixed b then 0 else 1 / mass b);
                 j = - (1 + e) * velAlongNormal a b / (invMassA + invMassB);
                 impulse = smul (collisionNormal a b) j;
                 a2 = (if \<not> fixed a
                       then a1\<lparr>velocity := vsub (velocity a1) (smul impulse invMassA)\<rparr> else a1);
                 b2 = (if \<not> fixed b
                       then b1\<lparr>velocity := vadd (velocity b1) (smul impulse invMassB)\<rparr> else b1);
                 a3 = (if \<not> fixed a
                       then a2\<lparr>velocity := smul (velocity a2) (98 / 100)\<rparr> else a2);
                 b3 = (if \<not> fixed b
                       then b2\<lparr>velocity := smul (velocity b2) (98 / 100)\<rparr> else b2)
             in (a3, b3)
      else (a, b))"

subsection \<open>The driver\<close>

text \<open>
  The cast \<^verbatim>\<open>(int)\<close> of a float truncates toward zero. The source's \<^verbatim>\<open>int\<close> has 32 bits;
  the language leaves the cast of a value outside its range undefined, and the model
  returns what the conversion instruction of the x86 family returns there, the least
  \<^verbatim>\<open>int\<close>.
\<close>

definition INT_MIN :: int where
  "INT_MIN = - (2 ^ 31)"

definition INT_MAX :: int where
  "INT_MAX = 2 ^ 31 - 1"

definition float_to_int :: "real \<Rightarrow> int" where
  "float_to_int x =
     (let t = (if 0 \<le> x then \<lfloor>x\<rfloor> else \<lceil>x\<rceil>)
      in if INT_MIN \<le> t \<and> t \<le> INT_MAX then t else INT_MIN)"

text \<open>
  The number of substeps of a frame and the timestep handed to each. The quotient is the
  real one: the program rounds it to single precision, and divides by the float nearest to
  0.001, so that at a frame time whose quotient lies within rounding of a whole number its
  count can be one less or more than \<open>physicsSteps\<close>. The statements below that name a
  count do so away from such frame times.
\<close>

definition physicsSteps :: "real \<Rightarrow> int" where
  "physicsSteps deltaTime =
     max 1 (float_to_int (deltaTime * simulationSpeed / MAX_TIMESTEP))"

definition physicsTimeStep :: "real \<Rightarrow> real" where
  "physicsTimeStep deltaTime =
     deltaTime * simulationSpeed / real_of_int (physicsSteps deltaTime)"

definition resetAccelerations :: "Object3D list \<Rightarrow> Object3D list" where
  "resetAccelerations objs = map (\<lambda>obj. obj\<lparr>acceleration := vzero\<rparr>) objs"

definition forcesOn :: "Object3D list \<Rightarrow> nat \<Rightarrow> Object3D list" where
  "forcesOn objs i =
     foldl (\<lambda>os j. calculateGravitationalForce os i j) objs [0..<length objs]"

definition calculateForces :: "Object3D list \<Rightarrow> Object3D list" where
  "calculateForces objs = foldl forcesOn objs [0..<length objs]"

definition updateAt :: "bool \<Rightarrow> real \<Rightarrow> Object3D list \<times> int \<Rightarrow> nat \<Rightarrow> Object3D list \<times> int" where
  "updateAt paused dt oc i =
     (let r = updatePosition paused dt (fst oc ! i, snd oc)
      in ((fst oc)[i := fst r], snd r))"

definition updatePositions :: "bool \<Rightarrow> real \<Rightarrow> Object3D list \<times> int \<Rightarrow> Object3D list \<times> int" where
  "updatePositions paused dt oc = foldl (updateAt paused dt) oc [0..<length (fst oc)]"

definition collidePair :: "Object3D list \<Rightarrow> nat \<Rightarrow> nat \<Rightarrow> Object3D list" where
  "collidePair objs i j =
     (if CheckCollision (objs ! i) (objs ! j)
      then (let r = ResolveCollision (objs ! i) (objs ! j)
            in objs[i := fst r, j := snd r])
      else objs)"

definition collideFrom :: "Object3D list \<Rightarrow> nat \<Rightarrow> Object3D list" where
  "collideFrom objs i = foldl (\<lambda>os j. collidePair os i j) objs [Suc i..<length objs]"

definition resolveCollisions :: "Object3D list \<Rightarrow> Object3D list" where
  "resolveCollisions objs = foldl collideFrom objs [0..<length objs]"

text \<open>One pass of the body of the \<^verbatim>\<open>for (step ...)\<close> loop of \<^verbatim>\<open>main\<close>.\<close>

definition integrate :: "real \<Rightarrow> world \<Rightarrow> world" where
  "integrate dt w =
     (let forced = calculateForces (resetAccelerations (objects w));
          r = updatePositions (isPaused w) dt (forced, trailCounter w)
      in w\<lparr>objects := fst r, trailCounter := snd r\<rparr>)"

definition substep :: "real \<Rightarrow> world \<Rightarrow> world" where
  "substep dt w =
     (let w1 = integrate dt w in w1\<lparr>objects := resolveCollisions (objects w1)\<rparr>)"

text \<open>The physics of one frame: the \<^verbatim>\<open>if (!isPaused)\<close> block of the render loop.\<close>

definition tick :: "world \<Rightarrow> real \<Rightarrow> world" where
  "tick w deltaTime =
     (if isPaused w then w
      else (substep (physicsTimeStep deltaTime) ^^ nat (physicsSteps deltaTime)) w)"

text \<open>
  What reaches the physics between two frames: the frame itself, with its measured
  \<^verbatim>\<open>deltaTime\<close>, and the space key of \<^verbatim>\<open>KeyCallback\<close>, which flips the pause flag.
\<close>

datatype input = Frame real | KeySpace

fun step :: "world \<Rightarrow> input \<Rightarrow> world" where
  "step w (Frame deltaTime) = tick w deltaTime"
| "step w KeySpace = w\<lparr>isPaused := \<not> isPaused w\<rparr>"

definition run :: "world \<Rightarrow> input list \<Rightarrow> world" where
  "run w ins = foldl step w ins"

section \<open>The solar-system variant\<close>

text \<open>
  The solar-system program has its own \<^verbatim>\<open>Object3D\<close>: no \<^verbatim>\<open>fixed\<close> flag, a trail of at
  most 500 positions that grows on every integration call, no substeps and no collisions.
\<close>

definition G_solar :: real where
  "G_solar = 1993560809749174 / 10 ^ 59"

record Object3D_solar =
  position_solar :: vec3
  velocity_solar :: vec3
  acceleration_solar :: vec3
  color_solar :: vec3
  radius_solar :: real
  mass_solar :: real
  trail_solar :: "vec3 list"

definition maxTrailLength_solar :: nat where
  "maxTrailLength_solar = 500"

record world_solar =
  objects_solar :: "Object3D_solar list"
  isPaused_solar :: bool

definition applyForce_solar :: "Object3D_solar \<Rightarrow> vec3 \<Rightarrow> Object3D_solar" where
  "applyForce_solar obj force =
     obj\<lparr>acceleration_solar := vadd (acceleration_solar obj) (sdiv force (mass_solar obj))\<rparr>"

definition updatePosition_solar :: "bool \<Rightarrow> real \<Rightarrow> Object3D_solar \<Rightarrow> Object3D_solar" where
  "updatePosition_solar paused dt obj =
     (if paused then obj
      else
        let v = vadd (velocity_solar obj) (smul (acceleration_solar obj) dt);
            p = vadd (position_solar obj) (smul v dt);
            pushed = trail_solar obj @ [p];
            t = (if length pushed > maxTrailLength_solar then tl pushed else pushed)
        in obj\<lparr>velocity_solar := v, position_solar := p, trail_solar := t,
               acceleration_solar := vzero\<rparr>)"

definition gravitationalForce_solar :: "Object3D_solar \<Rightarrow> Object3D_solar \<Rightarrow> vec3" where
  "gravitationalForce_solar this other =
     (let direction = vsub (position_solar other) (position_solar this);
          distance = vlength direction;
          distance = max distance (radius_solar this + radius_solar other);
          forceMagnitude = G_solar * mass_solar this * mass_solar other / (distance * distance)
      in smul (normalize_vec direction) forceMagnitude)"

definition calculateGravitationalForce_solar ::
  "Object3D_solar list \<Rightarrow> nat \<Rightarrow> nat \<Rightarrow> Object3D_solar list" where
  "calculateGravitationalForce_solar objs i j =
     (if j = i then objs
      else objs[i := applyForce_solar (objs ! i) (gravitationalForce_solar (objs ! i) (objs ! j))])"

definition forcesOn_solar :: "Object3D_solar list \<Rightarrow> nat \<Rightarrow> Object3D_solar list" where
  "forcesOn_solar objs i =
     foldl (\<lambda>os j. calculateGravitationalForce_solar os i j) objs [0..<length objs]"

definition tick_solar :: "world_solar \<Rightarrow> real \<Rightarrow> world_solar" where
  "tick_solar w deltaTime =
     (if isPaused_solar w then w
      else
        let forced = foldl forcesOn_solar (objects_solar w) [0..<length (objects_solar w)]
        in w\<lparr>objects_solar :=
               map (updatePosition_solar (isPaused_solar w) (deltaTime * simulationSpeed)) forced\<rparr>)"

fun step_solar :: "world_solar \<Rightarrow> input \<Rightarrow> world_solar" where
  "step_solar w (Frame deltaTime) = tick_solar w deltaTime"
| "step_solar w KeySpace = w\<lparr>isPaused_solar := \<not> isPaused_solar w\<rparr>"

definition run_solar :: "world_solar \<Rightarrow> input list \<Rightarrow> world_solar" where
  "run_solar w ins = foldl step_solar w ins"

section \<open>Histories of a body\<close>

text \<open>
  \<open>evolves obj obj'\<close>: the body \<open>obj'\<close> is what a body \<open>obj\<close> has become after any number
  of the operations the engine performs on a body, in any order and with any arguments:
  a force applied, the acceleration reset of the driver, an integration call, and a
  collision resolution with any partner on either side.
\<close>

inductive evolves :: "Object3D \<Rightarrow> Object3D \<Rightarrow> bool" where
  ev_refl: "evolves obj obj"
| ev_applyForce: "evolves obj obj' \<Longrightarrow> evolves obj (applyForce obj' force)"
| ev_reset: "evolves obj obj' \<Longrightarrow> evolves obj (obj'\<lparr>acceleration := vzero\<rparr>)"
| ev_updatePosition:
    "evolves obj obj' \<Longrightarrow> evolves obj (fst (updatePosition paused dt (obj', counter)))"
| ev_ResolveCollision_fst:
    "evolves obj obj' \<Longrightarrow> evolves obj (fst (ResolveCollision obj' partner))"
| ev_ResolveCollision_snd:
    "evolves obj obj' \<Longrightarrow> evolves obj (snd (ResolveCollision partner obj'))"

definition evolvesAll :: "Object3D list \<Rightarrow> Object3D list \<Rightarrow> bool" where
  "evolvesAll os0 os \<longleftrightarrow>
     length os = length os0 \<and> (\<forall>i < length os0. evolves (os0 ! i) (os ! i))"

text \<open>Two vectors of bodies that agree, body by body, on position and velocity.\<close>

definition samePV :: "Object3D list \<Rightarrow> Object3D list \<Rightarrow> bool" where
  "samePV os0 os \<longleftrightarrow>
     length os = length os0 \<and>
     (\<forall>i < length os0. position (os ! i) = position (os0 ! i)
                       \<and> velocity (os ! i) = velocity (os0 ! i))"

text \<open>
  The acceleration that one call of \<open>calculateGravitationalForce\<close> adds to a body that is
  not fixed: the force, divided by the body's mass in \<open>applyForce\<close>.
\<close>

definition pull :: "Object3D \<Rightarrow> Object3D \<Rightarrow> vec3" where
  "pull this other = sdiv (gravitationalForce this other) (mass this)"

text \<open>
  The two quantities in which the specification states the force: the distance between the
  centres, clamped below by twice the sum of the radii, and the unit vector from the first
  centre toward the second.
\<close>

definition clampedDistance :: "Object3D \<Rightarrow> Object3D \<Rightarrow> real" where
  "clampedDistance this other =
     max (vlength (vsub (position other) (position this))) ((radius this + radius other) * 2)"

definition towards :: "Object3D \<Rightarrow> Object3D \<Rightarrow> vec3" where
  "towards this other =
     sdiv (vsub (position other) (position this))
          (vlength (vsub (position other) (position this)))"

text \<open>Two vectors of bodies that differ, body by body, in the acceleration at most.\<close>

definition accelerated :: "Object3D list \<Rightarrow> Object3D list \<Rightarrow> bool" where
  "accelerated os0 os \<longleftrightarrow>
     length os = length os0 \<and>
     (\<forall>k < length os0. \<exists>acc. os ! k = (os0 ! k)\<lparr>acceleration := acc\<rparr>)"

text \<open>The total momentum of the bodies, the sum of velocity times mass.\<close>

definition momentum :: "Object3D list \<Rightarrow> vec3" where
  "momentum objs = foldl (\<lambda>s obj. vadd s (smul (velocity obj) (mass obj))) vzero objs"

text \<open>
  Some pair that the collision loop of the driver visits passes \<open>CheckCollision\<close>; and a
  run of \<open>n\<close> substeps in none of which, after the integration, any pair does, so that
  \<open>ResolveCollision\<close> is never called.
\<close>

definition anyCollision :: "Object3D list \<Rightarrow> bool" where
  "anyCollision objs \<longleftrightarrow>
     (\<exists>i \<in> set [0..<length objs]. \<exists>j \<in> set [Suc i..<length objs].
        CheckCollision (objs ! i) (objs ! j))"

fun collisionFree :: "real \<Rightarrow> nat \<Rightarrow> world \<Rightarrow> bool" where
  "collisionFree dt 0 w = True"
| "collisionFree dt (Suc n) w =
     (\<not> anyCollision (objects (integrate dt w)) \<and> collisionFree dt n (integrate dt w))"

section \<open>Example bodies\<close>

text \<open>The constructor of \<^verbatim>\<open>Object3D\<close>: zero acceleration, empty trail.\<close>

definition new_Object3D :: "vec3 \<Rightarrow> vec3 \<Rightarrow> real \<Rightarrow> vec3 \<Rightarrow> real \<Rightarrow> bool \<Rightarrow> Object3D" where
  "new_Object3D pos vel m col r isFixed =
     \<lparr>position = pos, velocity = vel, acceleration = vzero, color = col,
      radius = r, mass = m, fixed = isFixed, trail = []\<rparr>"

text \<open>A movable ball of mass 10 and radius 1 on the x axis, and an immovable star there.\<close>

definition ball :: "real \<Rightarrow> vec3 \<Rightarrow> Object3D" where
  "ball x vel = new_Object3D (Vec3 x 0 0) vel 10 (Vec3 1 1 1) 1 False"

definition star :: "real \<Rightarrow> Object3D" where
  "star x = new_Object3D (Vec3 x 0 0) vzero 5000 (Vec3 1 (9 / 10) (3 / 10)) (3 / 2) True"

text \<open>A movable speck of mass 10 and radius 1/2000 on the x axis.\<close>

definition speck :: "real \<Rightarrow> Object3D" where
  "speck x = new_Object3D (Vec3 x 0 0) vzero 10 (Vec3 1 1 1) (1 / 2000) False"

definition scene :: "Object3D list \<Rightarrow> int \<Rightarrow> world" where
  "scene objs counter = \<lparr>objects = objs, isPaused = False, trailCounter = counter\<rparr>"

text \<open>Two balls ten units apart, the first drifting left and the second right.\<close>

definition duo :: world where
  "duo = scene [ball 0 (Vec3 (- 1) 0 0), ball 10 (Vec3 3 0 0)] 0"

text \<open>The constructor of the solar-system \<^verbatim>\<open>Object3D\<close>, and a one-body scene of it.\<close>

definition new_Object3D_solar :: "vec3 \<Rightarrow> vec3 \<Rightarrow> real \<Rightarrow> vec3 \<Rightarrow> real \<Rightarrow> Object3D_solar" where
  "new_Object3D_solar pos vel m col r =
     \<lparr>position_solar = pos, velocity_solar = vel, acceleration_solar = vzero,
      color_solar = col, radius_solar = r, mass_solar = m, trail_solar = []\<rparr>"

definition scene_solar :: world_solar where
  "scene_solar =
     \<lparr>objects_solar = [new_Object3D_solar (Vec3 1 0 0) (Vec3 0 1 0) 10 (Vec3 1 1 1) 1],
      isPaused_solar = False\<rparr>"

section \<open>Properties\<close>

subsection \<open>Vector algebra\<close>

lemma smul_zero: "smul n 0 = vzero"
  by (simp add: smul_def vzero_def)

lemma vsub_zero: "vsub v vzero = v"
  by (simp add: vsub_def vzero_def)

lemma vadd_zero: "vadd v vzero = v"
  by (simp add: vadd_def vzero_def)

lemma smul_vzero: "smul vzero k = vzero"
  by (simp add: smul_def vzero_def)

lemma vlength_smul: "vlength (smul v k) = \<bar>k\<bar> * vlength v"
proof -
  have "dot (smul v k) (smul v k) = k\<^sup>2 * dot v v"
    by (simp add: dot_def smul_def power2_eq_square algebra_simps)
  then show ?thesis
    by (simp add: vlength_def real_sqrt_mult)
qed

lemma vlength_x_axis: "vlength (Vec3 x 0 0) = \<bar>x\<bar>"
  by (simp add: vlength_def dot_def)

lemma normalize_x_axis: "0 < x \<Longrightarrow> normalize_vec (Vec3 x 0 0) = Vec3 1 0 0"
  by (simp add: normalize_vec_def dot_def smul_def)

lemma normalize_x_axis_neg: "x < 0 \<Longrightarrow> normalize_vec (Vec3 x 0 0) = Vec3 (- 1) 0 0"
  by (simp add: normalize_vec_def dot_def smul_def)

subsection \<open>Every loop of the driver acts on each body by the operations of \<open>evolves\<close>\<close>

lemma foldl_invariant:
  assumes "I s" and "\<And>s x. I s \<Longrightarrow> I (f s x)"
  shows "I (foldl f s xs)"
  using assms(1) by (induction xs arbitrary: s) (simp_all add: assms(2))

lemma evolvesAll_refl: "evolvesAll os os"
  by (simp add: evolvesAll_def ev_refl)

lemma evolvesAll_nth: "evolvesAll os0 os \<Longrightarrow> k < length os \<Longrightarrow> evolves (os0 ! k) (os ! k)"
  by (simp add: evolvesAll_def)

lemma evolvesAll_update:
  assumes "evolvesAll os0 os" and "k < length os \<Longrightarrow> evolves (os0 ! k) x"
  shows "evolvesAll os0 (os[k := x])"
proof -
  have "evolves (os0 ! i) (os[k := x] ! i)" if "i < length os0" for i
  proof (cases "i = k")
    case True
    then show ?thesis using assms that by (simp add: evolvesAll_def)
  next
    case False
    then show ?thesis using assms that by (simp add: evolvesAll_def)
  qed
  then show ?thesis using assms(1) by (simp add: evolvesAll_def)
qed

lemma evolvesAll_calculateGravitationalForce:
  "evolvesAll os0 os \<Longrightarrow> evolvesAll os0 (calculateGravitationalForce os i j)"
  unfolding calculateGravitationalForce_def
  by (auto intro!: evolvesAll_update ev_applyForce evolvesAll_nth)

lemma evolvesAll_forcesOn: "evolvesAll os0 os \<Longrightarrow> evolvesAll os0 (forcesOn os i)"
  unfolding forcesOn_def
  by (rule foldl_invariant) (simp_all add: evolvesAll_calculateGravitationalForce)

lemma evolvesAll_calculateForces: "evolvesAll os0 os \<Longrightarrow> evolvesAll os0 (calculateForces os)"
  unfolding calculateForces_def
  by (rule foldl_invariant) (simp_all add: evolvesAll_forcesOn)

lemma evolvesAll_resetAccelerations:
  "evolvesAll os0 os \<Longrightarrow> evolvesAll os0 (resetAccelerations os)"
  by (simp add: evolvesAll_def resetAccelerations_def ev_reset)

lemma evolvesAll_updateAt:
  "evolvesAll os0 (fst oc) \<Longrightarrow> evolvesAll os0 (fst (updateAt paused dt oc i))"
  unfolding updateAt_def Let_def fst_conv
  by (rule evolvesAll_update) (auto intro: ev_updatePosition evolvesAll_nth)

lemma evolvesAll_updatePositions:
  "evolvesAll os0 (fst oc) \<Longrightarrow> evolvesAll os0 (fst (updatePositions paused dt oc))"
  unfolding updatePositions_def
  by (rule foldl_invariant [where I = "\<lambda>s. evolvesAll os0 (fst s)"])
     (simp_all add: evolvesAll_updateAt)

lemma evolvesAll_collidePair:
  assumes "evolvesAll os0 os"
  shows "evolvesAll os0 (collidePair os i j)"
proof (cases "CheckCollision (os ! i) (os ! j)")
  case False
  then show ?thesis using assms by (simp add: collidePair_def)
next
  case True
  let ?r = "ResolveCollision (os ! i) (os ! j)"
  have "evolvesAll os0 (os[i := fst ?r])"
    using assms by (auto intro!: evolvesAll_update ev_ResolveCollision_fst evolvesAll_nth)
  then have "evolvesAll os0 (os[i := fst ?r, j := snd ?r])"
    using assms by (auto intro!: evolvesAll_update ev_ResolveCollision_snd evolvesAll_nth)
  then show ?thesis using True by (simp add: collidePair_def Let_def)
qed

lemma evolvesAll_collideFrom: "evolvesAll os0 os \<Longrightarrow> evolvesAll os0 (collideFrom os i)"
  unfolding collideFrom_def
  by (rule foldl_invariant) (simp_all add: evolvesAll_collidePair)

lemma evolvesAll_resolveCollisions:
  "evolvesAll os0 os \<Longrightarrow> evolvesAll os0 (resolveCollisions os)"
  unfolding resolveCollisions_def
  by (rule foldl_invariant) (simp_all add: evolvesAll_collideFrom)

lemma evolvesAll_integrate:
  "evolvesAll os0 (objects w) \<Longrightarrow> evolvesAll os0 (objects (integrate dt w))"
  by (simp add: integrate_def Let_def evolvesAll_updatePositions evolvesAll_calculateForces
      evolvesAll_resetAccelerations)

lemma evolvesAll_substep:
  "evolvesAll os0 (objects w) \<Longrightarrow> evolvesAll os0 (objects (substep dt w))"
  by (simp add: substep_def Let_def evolvesAll_resolveCollisions evolvesAll_integrate)

lemma evolvesAll_substeps:
  "evolvesAll os0 (objects w) \<Longrightarrow> evolvesAll os0 (objects ((substep dt ^^ n) w))"
  by (induction n) (simp_all add: evolvesAll_substep)

lemma evolvesAll_tick:
  "evolvesAll os0 (objects w) \<Longrightarrow> evolvesAll os0 (objects (tick w deltaTime))"
  by (simp add: tick_def evolvesAll_substeps)

lemma evolvesAll_step:
  "evolvesAll os0 (objects w) \<Longrightarrow> evolvesAll os0 (objects (step w x))"
  by (cases x) (simp_all add: evolvesAll_tick)

lemma evolvesAll_run: "evolvesAll (objects w) (objects (run w ins))"
  unfolding run_def
  by (rule foldl_invariant [where I = "\<lambda>s. evolvesAll (objects w) (objects s)"])
     (simp_all add: evolvesAll_refl evolvesAll_step)

lemma evolves_fixed:
  "evolves obj obj' \<Longrightarrow> fixed obj \<Longrightarrow>
     fixed obj' \<and> position obj' = position obj \<and> velocity obj' = velocity obj"
proof (induction rule: evolves.induct)
  case (ev_refl obj)
  then show ?case by simp
next
  case (ev_applyForce obj obj' force)
  then show ?case by (simp add: applyForce_def)
next
  case (ev_reset obj obj')
  then show ?case by simp
next
  case (ev_updatePosition obj obj' paused dt counter)
  then show ?case by (simp add: updatePosition_def)
next
  case (ev_ResolveCollision_fst obj obj' partner)
  then show ?case by (simp add: ResolveCollision_def Let_def)
next
  case (ev_ResolveCollision_snd obj obj' partner)
  then show ?case by (simp add: ResolveCollision_def Let_def)
qed

subsection \<open>Collision resolution\<close>

text \<open>
  Claim C9. When both bodies of a pair are fixed, \<open>ResolveCollision\<close> returns both exactly
  as they were, positions and velocities included: the impulse scalar, whose divisor
  \<open>invMassA + invMassB\<close> is then zero, is never written to either body.
\<close>

theorem ResolveCollision_both_fixed:
  "fixed a \<Longrightarrow> fixed b \<Longrightarrow> ResolveCollision a b = (a, b)"
  by (simp add: ResolveCollision_def Let_def)

theorem ResolveCollision_both_fixed_witness:
  "fixed (star 0) \<and> fixed (star 1) \<and> 0 < overlap (star 0) (star 1)
   \<and> ResolveCollision (star 0) (star 1) = (star 0, star 1)"
  using ResolveCollision_both_fixed [of "star 0" "star 1"]
  by (simp add: star_def new_Object3D_def overlap_def vsub_def vlength_x_axis)

text \<open>
  Claim C8. When the relative velocity along the collision normal is strictly positive,
  \<open>ResolveCollision\<close> leaves the velocities of both bodies as they were: neither the impulse
  nor the damping is applied.
\<close>

theorem ResolveCollision_separating:
  "0 < velAlongNormal a b \<Longrightarrow>
     velocity (fst (ResolveCollision a b)) = velocity a \<and>
     velocity (snd (ResolveCollision a b)) = velocity b"
  by (simp add: ResolveCollision_def Let_def)

theorem ResolveCollision_separating_witness:
  "0 < overlap (ball 0 vzero) (ball 1 (Vec3 1 2 0))
   \<and> 0 < velAlongNormal (ball 0 vzero) (ball 1 (Vec3 1 2 0))
   \<and> velocity (fst (ResolveCollision (ball 0 vzero) (ball 1 (Vec3 1 2 0)))) = vzero
   \<and> velocity (snd (ResolveCollision (ball 0 vzero) (ball 1 (Vec3 1 2 0)))) = Vec3 1 2 0"
  using ResolveCollision_separating [of "ball 0 vzero" "ball 1 (Vec3 1 2 0)"]
  by (simp add: ball_def new_Object3D_def overlap_def velAlongNormal_def collisionNormal_def
      vsub_def vlength_x_axis normalize_x_axis dot_def vzero_def)

text \<open>
  Claim C10. In a grazing contact (the bodies overlap and their relative velocity along
  the normal is exactly zero) the impulse is zero, and still the whole velocity vector of
  each body that is not fixed is multiplied by 0.98, so its speed drops by 2 percent.
  Masses are positive, as the data model requires.
\<close>

theorem ResolveCollision_grazing:
  assumes "0 < overlap a b" and "velAlongNormal a b = 0" and "0 < mass a" and "0 < mass b"
  shows "(\<not> fixed a \<longrightarrow>
            velocity (fst (ResolveCollision a b)) = smul (velocity a) (98 / 100) \<and>
            vlength (velocity (fst (ResolveCollision a b))) = (98 / 100) * vlength (velocity a))
       \<and> (\<not> fixed b \<longrightarrow>
            velocity (snd (ResolveCollision a b)) = smul (velocity b) (98 / 100) \<and>
            vlength (velocity (snd (ResolveCollision a b))) = (98 / 100) * vlength (velocity b))"
proof -
  have "\<not> fixed a \<Longrightarrow> velocity (fst (ResolveCollision a b)) = smul (velocity a) (98 / 100)"
    using assms by (simp add: ResolveCollision_def Let_def smul_zero smul_vzero vsub_zero)
  moreover
  have "\<not> fixed b \<Longrightarrow> velocity (snd (ResolveCollision a b)) = smul (velocity b) (98 / 100)"
    using assms by (simp add: ResolveCollision_def Let_def smul_zero smul_vzero vadd_zero)
  ultimately show ?thesis by (simp add: vlength_smul)
qed

theorem ResolveCollision_grazing_witness:
  "0 < overlap (ball 0 (Vec3 0 3 4)) (ball 1 (Vec3 0 1 0))
   \<and> velAlongNormal (ball 0 (Vec3 0 3 4)) (ball 1 (Vec3 0 1 0)) = 0
   \<and> velocity (fst (ResolveCollision (ball 0 (Vec3 0 3 4)) (ball 1 (Vec3 0 1 0))))
       = Vec3 0 (294 / 100) (392 / 100)
   \<and> velocity (snd (ResolveCollision (ball 0 (Vec3 0 3 4)) (ball 1 (Vec3 0 1 0))))
       = Vec3 0 (98 / 100) 0"
  using ResolveCollision_grazing [of "ball 0 (Vec3 0 3 4)" "ball 1 (Vec3 0 1 0)"]
  by (simp add: ball_def new_Object3D_def overlap_def velAlongNormal_def collisionNormal_def
      vsub_def vlength_x_axis normalize_x_axis dot_def smul_def)

subsection \<open>Fixed bodies\<close>

text \<open>
  Claim C2. A body with \<open>fixed = true\<close> keeps its position and its velocity (and stays
  fixed) through any history of forces applied by \<open>applyForce\<close>, integration calls of
  \<open>updatePosition\<close> and collision resolutions by \<open>ResolveCollision\<close> with any partner on
  either side; and so does every fixed body of a world through any sequence of frames and
  pause keys.
\<close>

theorem fixed_body_invariance:
  assumes "fixed obj"
  shows "(evolves obj obj' \<longrightarrow>
            fixed obj' \<and> position obj' = position obj \<and> velocity obj' = velocity obj)
       \<and> (i < length (objects w) \<and> objects w ! i = obj \<longrightarrow>
            length (objects (run w ins)) = length (objects w) \<and>
            fixed (objects (run w ins) ! i) \<and>
            position (objects (run w ins) ! i) = position obj \<and>
            velocity (objects (run w ins) ! i) = velocity obj)"
proof -
  have one: "fixed obj' \<and> position obj' = position obj \<and> velocity obj' = velocity obj"
    if "evolves obj obj'"
    using that assms by (rule evolves_fixed)
  have all: "evolvesAll (objects w) (objects (run w ins))"
    by (rule evolvesAll_run)
  then have len: "length (objects (run w ins)) = length (objects w)"
    by (simp add: evolvesAll_def)
  have many: "fixed (objects (run w ins) ! i) \<and>
       position (objects (run w ins) ! i) = position obj \<and>
       velocity (objects (run w ins) ! i) = velocity obj"
    if h: "i < length (objects w) \<and> objects w ! i = obj"
  proof -
    from all h have "evolves obj (objects (run w ins) ! i)"
      by (auto simp: evolvesAll_def)
    then show ?thesis using assms by (rule evolves_fixed)
  qed
  show ?thesis using one len many by blast
qed

theorem fixed_body_invariance_witness:
  "fixed (star 0)
   \<and> evolves (star 0) (fst (ResolveCollision (applyForce (star 0) (Vec3 1 2 3)) (ball 1 vzero)))
   \<and> position (fst (ResolveCollision (applyForce (star 0) (Vec3 1 2 3)) (ball 1 vzero)))
       = Vec3 0 0 0
   \<and> position (objects (run (scene [star 0, ball 1 vzero] 0) [Frame (1 / 100), KeySpace, Frame (1 / 60)]) ! 0) = Vec3 0 0 0
   \<and> velocity (objects (run (scene [star 0, ball 1 vzero] 0) [Frame (1 / 100), KeySpace, Frame (1 / 60)]) ! 0) = Vec3 0 0 0"
proof -
  have f: "fixed (star 0)"
    by (simp add: star_def new_Object3D_def)
  have e: "evolves (star 0)
      (fst (ResolveCollision (applyForce (star 0) (Vec3 1 2 3)) (ball 1 vzero)))"
    by (intro ev_ResolveCollision_fst ev_applyForce ev_refl)
  show ?thesis
    using f e
      fixed_body_invariance [OF f,
        of "fst (ResolveCollision (applyForce (star 0) (Vec3 1 2 3)) (ball 1 vzero))" 0
          "scene [star 0, ball 1 vzero] 0"
          "[Frame (1 / 100), KeySpace, Frame (1 / 60)]"]
    by (simp add: star_def new_Object3D_def vzero_def scene_def)
qed

subsection \<open>Trails\<close>

lemma trail_updatePosition:
  "length (trail obj) \<le> maxTrailLength \<Longrightarrow>
   length (trail (fst (updatePosition paused dt (obj, counter)))) \<le> maxTrailLength"
  by (simp add: updatePosition_def Let_def)

lemma evolves_trail:
  "evolves obj obj' \<Longrightarrow> length (trail obj) \<le> maxTrailLength \<Longrightarrow>
     length (trail obj') \<le> maxTrailLength"
proof (induction rule: evolves.induct)
  case (ev_updatePosition obj obj' paused dt counter)
  then show ?case by (simp add: trail_updatePosition)
qed (simp_all add: applyForce_def ResolveCollision_def Let_def)

lemma run_trail:
  assumes "\<forall>obj \<in> set (objects w). length (trail obj) \<le> maxTrailLength"
  shows "\<forall>obj \<in> set (objects (run w ins)). length (trail obj) \<le> maxTrailLength"
proof
  fix obj assume "obj \<in> set (objects (run w ins))"
  then obtain i where i: "i < length (objects (run w ins))" "objects (run w ins) ! i = obj"
    by (auto simp: in_set_conv_nth)
  have all: "evolvesAll (objects w) (objects (run w ins))"
    by (rule evolvesAll_run)
  with i have "i < length (objects w)" "evolves (objects w ! i) obj"
    by (auto simp: evolvesAll_def)
  moreover from this assms have "length (trail (objects w ! i)) \<le> maxTrailLength"
    by simp
  ultimately show "length (trail obj) \<le> maxTrailLength"
    by (auto intro: evolves_trail)
qed

lemma trail_push:
  assumes "\<not> fixed obj" "\<not> paused" "(counter + 1) mod 3 = 0"
  shows "trail (fst (updatePosition paused dt (obj, counter))) =
     (if length (trail obj) < maxTrailLength then trail obj else tl (trail obj))
       @ [position (fst (updatePosition paused dt (obj, counter)))]"
  using assms by (cases "trail obj") (auto simp add: updatePosition_def Let_def maxTrailLength_def)

lemma bounded_update_solar:
  assumes "\<forall>obj \<in> set os. length (trail_solar obj) \<le> maxTrailLength_solar"
    and "i < length os \<Longrightarrow> length (trail_solar x) \<le> maxTrailLength_solar"
  shows "\<forall>obj \<in> set (os[i := x]). length (trail_solar obj) \<le> maxTrailLength_solar"
proof (cases "i < length os")
  case True
  then show ?thesis using assms set_update_subset_insert [of os i x] by auto
next
  case False
  then have "length os \<le> i" by simp
  then have "os[i := x] = os" by (rule list_update_beyond)
  then show ?thesis using assms by simp
qed

lemma bounded_calculateGravitationalForce_solar:
  "\<forall>obj \<in> set os. length (trail_solar obj) \<le> maxTrailLength_solar \<Longrightarrow>
   \<forall>obj \<in> set (calculateGravitationalForce_solar os i j).
      length (trail_solar obj) \<le> maxTrailLength_solar"
proof -
  assume b: "\<forall>obj \<in> set os. length (trail_solar obj) \<le> maxTrailLength_solar"
  let ?x = "applyForce_solar (os ! i) (gravitationalForce_solar (os ! i) (os ! j))"
  have "i < length os \<Longrightarrow> length (trail_solar ?x) \<le> maxTrailLength_solar"
    using b by (simp add: applyForce_solar_def)
  with b have "\<forall>obj \<in> set (os[i := ?x]). length (trail_solar obj) \<le> maxTrailLength_solar"
    by (rule bounded_update_solar)
  with b show ?thesis
    by (simp add: calculateGravitationalForce_solar_def)
qed

lemma bounded_forcesOn_solar:
  "\<forall>obj \<in> set os. length (trail_solar obj) \<le> maxTrailLength_solar \<Longrightarrow>
   \<forall>obj \<in> set (forcesOn_solar os i). length (trail_solar obj) \<le> maxTrailLength_solar"
  unfolding forcesOn_solar_def
  by (rule foldl_invariant) (simp_all add: bounded_calculateGravitationalForce_solar)

lemma trail_updatePosition_solar:
  "length (trail_solar obj) \<le> maxTrailLength_solar \<Longrightarrow>
   length (trail_solar (updatePosition_solar paused dt obj)) \<le> maxTrailLength_solar"
  by (simp add: updatePosition_solar_def Let_def)

lemma bounded_tick_solar:
  assumes "\<forall>obj \<in> set (objects_solar w). length (trail_solar obj) \<le> maxTrailLength_solar"
  shows "\<forall>obj \<in> set (objects_solar (tick_solar w deltaTime)).
      length (trail_solar obj) \<le> maxTrailLength_solar"
proof -
  have "\<forall>obj \<in> set (foldl forcesOn_solar (objects_solar w) [0..<length (objects_solar w)]).
      length (trail_solar obj) \<le> maxTrailLength_solar"
    using assms by (rule foldl_invariant) (simp add: bounded_forcesOn_solar)
  then show ?thesis
    using assms by (simp add: tick_solar_def Let_def trail_updatePosition_solar)
qed

lemma bounded_step_solar:
  "\<forall>obj \<in> set (objects_solar w). length (trail_solar obj) \<le> maxTrailLength_solar \<Longrightarrow>
   \<forall>obj \<in> set (objects_solar (step_solar w x)). length (trail_solar obj) \<le> maxTrailLength_solar"
  by (cases x) (simp_all add: bounded_tick_solar)

lemma run_trail_solar:
  assumes "\<forall>obj \<in> set (objects_solar w). length (trail_solar obj) \<le> maxTrailLength_solar"
  shows "\<forall>obj \<in> set (objects_solar (run_solar w ins)).
      length (trail_solar obj) \<le> maxTrailLength_solar"
  unfolding run_solar_def
  using assms by (rule foldl_invariant) (simp add: bounded_step_solar)

lemma trail_push_solar:
  assumes "\<not> paused"
  shows "trail_solar (updatePosition_solar paused dt obj) =
     (if length (trail_solar obj) < maxTrailLength_solar then trail_solar obj
      else tl (trail_solar obj))
       @ [position_solar (updatePosition_solar paused dt obj)]"
  using assms
  by (cases "trail_solar obj") (auto simp add: updatePosition_solar_def Let_def maxTrailLength_solar_def)

text \<open>
  Claim C6. The cap on the trail is 1000 positions in the collision engine and 500 in the
  solar-system variant, and a body is constructed with an empty trail. In either engine,
  when no trail is longer than the cap, none is after any sequence of frames and pause
  keys. A push appends the new position at the end, and when the trail already holds as
  many positions as the cap, it drops the first, oldest one.
\<close>

theorem trail_bound:
  "maxTrailLength = 1000 \<and> maxTrailLength_solar = 500
   \<and> trail (new_Object3D pos vel m col r isFixed) = []
   \<and> trail_solar (new_Object3D_solar pos vel m col r) = []
   \<and> ((\<forall>obj \<in> set (objects w). length (trail obj) \<le> maxTrailLength) \<longrightarrow>
        (\<forall>obj \<in> set (objects (run w ins)). length (trail obj) \<le> maxTrailLength))
   \<and> ((\<forall>obj \<in> set (objects_solar ws). length (trail_solar obj) \<le> maxTrailLength_solar) \<longrightarrow>
        (\<forall>obj \<in> set (objects_solar (run_solar ws ins)).
           length (trail_solar obj) \<le> maxTrailLength_solar))
   \<and> (\<not> fixed obj \<and> \<not> paused \<and> (counter + 1) mod 3 = 0 \<longrightarrow>
        trail (fst (updatePosition paused dt (obj, counter))) =
          (if length (trail obj) < maxTrailLength then trail obj else tl (trail obj))
            @ [position (fst (updatePosition paused dt (obj, counter)))])
   \<and> (\<not> paused \<longrightarrow>
        trail_solar (updatePosition_solar paused dt objs) =
          (if length (trail_solar objs) < maxTrailLength_solar then trail_solar objs
           else tl (trail_solar objs))
            @ [position_solar (updatePosition_solar paused dt objs)])"
  using run_trail [of w ins] run_trail_solar [of ws ins]
    trail_push [of obj paused counter dt] trail_push_solar [of paused dt objs]
  by (simp add: maxTrailLength_def maxTrailLength_solar_def new_Object3D_def
      new_Object3D_solar_def)

theorem trail_bound_witness:
  "list_all (\<lambda>obj. length (trail obj) \<le> maxTrailLength)
      (objects (scene [star 0, ball 5 vzero] 0))
   \<and> list_all (\<lambda>obj. length (trail obj) \<le> 1000)
      (objects (run (scene [star 0, ball 5 vzero] 0) [Frame (1 / 60), Frame (1 / 50)]))
   \<and> list_all (\<lambda>obj. length (trail_solar obj) \<le> maxTrailLength_solar)
      (objects_solar scene_solar)
   \<and> list_all (\<lambda>obj. length (trail_solar obj) \<le> 500)
      (objects_solar (run_solar scene_solar [Frame (1 / 60), Frame (1 / 50)]))
   \<and> length (trail ((ball 0 vzero)\<lparr>trail := Vec3 7 7 7 # replicate 999 vzero\<rparr>)) = maxTrailLength
   \<and> trail (fst (updatePosition False (1 / 1000)
        ((ball 0 vzero)\<lparr>trail := Vec3 7 7 7 # replicate 999 vzero\<rparr>, 2)))
       = replicate 999 vzero @ [Vec3 0 0 0]"
  using trail_bound [where w = "scene [star 0, ball 5 vzero] 0"
      and ins = "[Frame (1 / 60), Frame (1 / 50)]" and ws = scene_solar
      and obj = "(ball 0 vzero)\<lparr>trail := Vec3 7 7 7 # replicate 999 vzero\<rparr>"
      and paused = False and counter = 2 and dt = "1 / 1000"
      and objs = "new_Object3D_solar (Vec3 1 0 0) (Vec3 0 1 0) 10 (Vec3 1 1 1) 1"]
  by (simp add: list_all_iff scene_def scene_solar_def star_def ball_def new_Object3D_def
      new_Object3D_solar_def maxTrailLength_def maxTrailLength_solar_def
      updatePosition_def Let_def vadd_def smul_def vzero_def)

subsection \<open>Substeps\<close>

lemma upt_2: "[0..<2] = [0, 1]" by (simp add: upt_rec)

lemma substep_single:
  assumes "objects w = [obj]" "\<not> fixed obj" "\<not> isPaused w"
  shows "\<exists>obj'. objects (substep dt w) = [obj'] \<and> \<not> fixed obj' \<and> velocity obj' = velocity obj
     \<and> position obj' = vadd (position obj) (smul (velocity obj) (actualDt dt))
     \<and> \<not> isPaused (substep dt w)"
  using assms
  by (simp add: substep_def integrate_def resolveCollisions_def collideFrom_def
      updatePositions_def updateAt_def updatePosition_def calculateForces_def forcesOn_def
      calculateGravitationalForce_def resetAccelerations_def Let_def smul_vzero vadd_zero)

lemma vadd_smul_step:
  "vadd (vadd p (smul v s)) (smul v t) = vadd p (smul v (s + t))"
  by (simp add: vadd_def smul_def algebra_simps)

lemma substeps_single:
  assumes "objects w = [obj]" "\<not> fixed obj" "\<not> isPaused w"
  shows "\<exists>obj'. objects ((substep dt ^^ n) w) = [obj'] \<and> \<not> fixed obj'
     \<and> velocity obj' = velocity obj
     \<and> position obj' = vadd (position obj) (smul (velocity obj) (real n * actualDt dt))
     \<and> \<not> isPaused ((substep dt ^^ n) w)"
proof (induction n)
  case 0
  then show ?case using assms by (simp add: smul_zero vadd_zero)
next
  case (Suc n)
  then obtain o1 where o1: "objects ((substep dt ^^ n) w) = [o1]" "\<not> fixed o1"
     "velocity o1 = velocity obj"
     "position o1 = vadd (position obj) (smul (velocity obj) (real n * actualDt dt))"
     "\<not> isPaused ((substep dt ^^ n) w)"
    by blast
  from substep_single [OF o1(1) o1(2) o1(5), of dt]
  obtain o2 where o2: "objects (substep dt ((substep dt ^^ n) w)) = [o2]" "\<not> fixed o2"
     "velocity o2 = velocity o1"
     "position o2 = vadd (position o1) (smul (velocity o1) (actualDt dt))"
     "\<not> isPaused (substep dt ((substep dt ^^ n) w))"
    by blast
  have "position o2 = vadd (position obj) (smul (velocity obj) (real (Suc n) * actualDt dt))"
    using o1 o2 by (simp add: vadd_smul_step algebra_simps)
  then show ?case using o1 o2 by simp
qed

lemma physicsSteps_pos: "1 \<le> physicsSteps deltaTime"
  by (simp add: physicsSteps_def)

lemma free_body_tick:
  assumes "objects w = [obj]" "\<not> fixed obj" "\<not> isPaused w"
  shows "position (objects (tick w deltaTime) ! 0)
       = vadd (position obj)
           (smul (velocity obj)
              (real_of_int (physicsSteps deltaTime) * actualDt (physicsTimeStep deltaTime)))"
proof -
  from substeps_single [OF assms, where dt = "physicsTimeStep deltaTime"
      and n = "nat (physicsSteps deltaTime)"]
  obtain obj' where "objects ((substep (physicsTimeStep deltaTime) ^^ nat (physicsSteps deltaTime)) w) = [obj']"
    "position obj' = vadd (position obj) (smul (velocity obj)
        (real (nat (physicsSteps deltaTime)) * actualDt (physicsTimeStep deltaTime)))"
    by blast
  moreover have "real (nat (physicsSteps deltaTime)) = real_of_int (physicsSteps deltaTime)"
    using physicsSteps_pos [of deltaTime] by simp
  ultimately show ?thesis using assms by (simp add: tick_def)
qed

lemma steps_17: "physicsSteps (17 / 10000) = 1"
  by (simp add: physicsSteps_def float_to_int_def INT_MIN_def INT_MAX_def simulationSpeed_def
      MAX_TIMESTEP_def)

lemma steps_half: "physicsSteps (1 / 2000) = 1"
  by (simp add: physicsSteps_def float_to_int_def INT_MIN_def INT_MAX_def simulationSpeed_def
      MAX_TIMESTEP_def)

text \<open>
  Claim C1. The claim is that a frame of requested time \<open>dt > 0\<close> runs
  \<open>ceil (dt / MAX_TIMESTEP)\<close> substeps, each integrated with \<open>dt / count\<close>, so that the time
  integrated over the frame is \<open>dt\<close>. The driver does hand every substep the share
  \<open>dt / physicsSteps\<close>, and a frame of half a millisecond is integrated in full: a free body
  of unit velocity advances by 0.0005. But the count is the truncated quotient, so at a
  frame of 1.7 ms one substep runs where the ceiling is two, its share of 1.7 ms exceeds
  \<open>MAX_TIMESTEP\<close> and \<open>updatePosition\<close> cuts it to 1 ms: the same body advances by 0.001, not
  by 0.0017.
\<close>

theorem substep_time_shortfall:
  "physicsSteps (17 / 10000) = 1
   \<and> \<lceil>(17 / 10000) * simulationSpeed / MAX_TIMESTEP\<rceil> = 2
   \<and> physicsTimeStep (17 / 10000) = 17 / 10000
   \<and> actualDt (physicsTimeStep (17 / 10000)) = 10 / 10000
   \<and> position (objects (tick (scene [ball 0 (Vec3 1 0 0)] 0) (17 / 10000)) ! 0)
       = Vec3 (10 / 10000) 0 0
   \<and> position (objects (tick (scene [ball 0 (Vec3 1 0 0)] 0) (1 / 2000)) ! 0)
       = Vec3 (1 / 2000) 0 0"
proof -
  have t: "physicsTimeStep (17 / 10000) = 17 / 10000"
      "actualDt (physicsTimeStep (17 / 10000)) = 10 / 10000"
    by (simp_all add: physicsTimeStep_def actualDt_def steps_17 simulationSpeed_def
        MAX_TIMESTEP_def)
  have h: "actualDt (physicsTimeStep (1 / 2000)) = 1 / 2000"
    by (simp add: physicsTimeStep_def actualDt_def steps_half simulationSpeed_def
        MAX_TIMESTEP_def)
  have "position (objects (tick (scene [ball 0 (Vec3 1 0 0)] 0) (17 / 10000)) ! 0)
       = Vec3 (10 / 10000) 0 0"
    using free_body_tick [of "scene [ball 0 (Vec3 1 0 0)] 0" "ball 0 (Vec3 1 0 0)" "17 / 10000"]
    by (simp add: t steps_17 actualDt_def MAX_TIMESTEP_def scene_def ball_def
        new_Object3D_def vadd_def smul_def)
  moreover
  have "position (objects (tick (scene [ball 0 (Vec3 1 0 0)] 0) (1 / 2000)) ! 0)
       = Vec3 (1 / 2000) 0 0"
    using free_body_tick [of "scene [ball 0 (Vec3 1 0 0)] 0" "ball 0 (Vec3 1 0 0)" "1 / 2000"]
    by (simp add: h steps_half physicsTimeStep_def simulationSpeed_def actualDt_def
        MAX_TIMESTEP_def scene_def ball_def new_Object3D_def vadd_def smul_def)
  ultimately show ?thesis
    by (simp add: t steps_17 actualDt_def simulationSpeed_def MAX_TIMESTEP_def)
qed

subsection \<open>Frames of no or negative duration\<close>

lemma samePV_refl: "samePV os os"
  by (simp add: samePV_def)

lemma samePV_update:
  assumes "samePV os0 os"
    and "k < length os \<Longrightarrow> position x = position (os ! k) \<and> velocity x = velocity (os ! k)"
  shows "samePV os0 (os[k := x])"
proof -
  have "position (os[k := x] ! i) = position (os0 ! i)
      \<and> velocity (os[k := x] ! i) = velocity (os0 ! i)" if "i < length os0" for i
  proof (cases "i = k")
    case True
    then show ?thesis using assms that by (simp add: samePV_def)
  next
    case False
    then show ?thesis using assms that by (simp add: samePV_def)
  qed
  then show ?thesis using assms(1) by (simp add: samePV_def)
qed

lemma samePV_calculateGravitationalForce:
  "samePV os0 os \<Longrightarrow> samePV os0 (calculateGravitationalForce os i j)"
  unfolding calculateGravitationalForce_def
  by (auto intro!: samePV_update simp: applyForce_def)

lemma samePV_forcesOn: "samePV os0 os \<Longrightarrow> samePV os0 (forcesOn os i)"
  unfolding forcesOn_def
  by (rule foldl_invariant) (simp_all add: samePV_calculateGravitationalForce)

lemma samePV_calculateForces: "samePV os0 os \<Longrightarrow> samePV os0 (calculateForces os)"
  unfolding calculateForces_def
  by (rule foldl_invariant) (simp_all add: samePV_forcesOn)

lemma samePV_resetAccelerations: "samePV os0 os \<Longrightarrow> samePV os0 (resetAccelerations os)"
  by (simp add: samePV_def resetAccelerations_def)

lemma updatePosition_zero:
  "position (fst (updatePosition paused 0 (obj, c))) = position obj
   \<and> velocity (fst (updatePosition paused 0 (obj, c))) = velocity obj"
  by (simp add: updatePosition_def Let_def actualDt_def MAX_TIMESTEP_def smul_zero vadd_zero)

lemma samePV_updateAt:
  "samePV os0 (fst oc) \<Longrightarrow> samePV os0 (fst (updateAt paused 0 oc i))"
  unfolding updateAt_def Let_def fst_conv
  by (rule samePV_update) (simp_all add: updatePosition_zero)

lemma samePV_updatePositions:
  "samePV os0 (fst oc) \<Longrightarrow> samePV os0 (fst (updatePositions paused 0 oc))"
  unfolding updatePositions_def
  by (rule foldl_invariant [where I = "\<lambda>s. samePV os0 (fst s)"])
     (simp_all add: samePV_updateAt)

lemma samePV_integrate: "samePV (objects w) (objects (integrate 0 w))"
  by (simp add: integrate_def Let_def samePV_updatePositions samePV_calculateForces
      samePV_resetAccelerations samePV_refl)

lemma steps_nonpositive:
  assumes "deltaTime * simulationSpeed \<le> 0"
  shows "physicsSteps deltaTime = 1"
proof -
  have "deltaTime * simulationSpeed / MAX_TIMESTEP \<le> 0"
    using assms by (simp add: MAX_TIMESTEP_def mult.commute)
  then have "float_to_int (deltaTime * simulationSpeed / MAX_TIMESTEP) \<le> 0"
    by (simp add: float_to_int_def Let_def INT_MIN_def ceiling_le_iff)
  then show ?thesis by (simp add: physicsSteps_def)
qed

lemma steps_0: "physicsSteps 0 = 1"
  by (simp add: physicsSteps_def float_to_int_def INT_MIN_def INT_MAX_def)

lemma steps_neg: "physicsSteps (- 1) = 1"
  by (simp add: physicsSteps_def float_to_int_def INT_MIN_def INT_MAX_def simulationSpeed_def
      MAX_TIMESTEP_def)

text \<open>
  Claim C5 (as amended). A frame whose requested time is zero or negative still runs one
  substep, with that time as its timestep, unless the simulation is paused; only a paused
  frame does nothing. When the requested time is zero, the integration of that substep
  leaves the position and the velocity of every body as they were; the trail counter still
  advances and collisions are still detected and resolved.
\<close>

theorem nonpositive_tick:
  assumes "deltaTime * simulationSpeed \<le> 0"
  shows "physicsSteps deltaTime = 1
       \<and> physicsTimeStep deltaTime = deltaTime * simulationSpeed
       \<and> actualDt (physicsTimeStep deltaTime) = deltaTime * simulationSpeed
       \<and> tick w deltaTime =
           (if isPaused w then w else substep (deltaTime * simulationSpeed) w)
       \<and> (deltaTime * simulationSpeed = 0 \<longrightarrow>
            samePV (objects w) (objects (integrate (deltaTime * simulationSpeed) w)))"
  using assms steps_nonpositive [OF assms] samePV_integrate [of w]
  by (simp add: physicsTimeStep_def actualDt_def tick_def MAX_TIMESTEP_def)

theorem nonpositive_tick_witness:
  "0 * simulationSpeed \<le> 0 \<and> physicsSteps 0 = 1
   \<and> tick (scene [ball 0 vzero, ball 1 vzero] 0) 0 = substep 0 (scene [ball 0 vzero, ball 1 vzero] 0)
   \<and> samePV [ball 0 vzero, ball 1 vzero] (objects (integrate 0 (scene [ball 0 vzero, ball 1 vzero] 0)))
   \<and> tick ((scene [ball 0 vzero, ball 1 vzero] 0)\<lparr>isPaused := True\<rparr>) 0 = (scene [ball 0 vzero, ball 1 vzero] 0)\<lparr>isPaused := True\<rparr>"
  using nonpositive_tick [of 0 "scene [ball 0 vzero, ball 1 vzero] 0"]
     nonpositive_tick [of 0 "(scene [ball 0 vzero, ball 1 vzero] 0)\<lparr>isPaused := True\<rparr>"]
  by (simp add: scene_def)

text \<open>
  The claim as first stated fails at a frame of zero duration: one substep runs, a trail
  receives a position, and two overlapping balls are pushed apart. At a negative duration
  a free body moves backwards.
\<close>

theorem nonpositive_tick_counterexample:
  "physicsSteps 0 = 1
   \<and> trail (objects (scene [ball 0 vzero] 2) ! 0) = []
   \<and> trail (objects (tick (scene [ball 0 vzero] 2) 0) ! 0) = [Vec3 0 0 0]
   \<and> position (objects (scene [ball 0 vzero, ball 1 vzero] 0) ! 0) = Vec3 0 0 0
   \<and> position (objects (tick (scene [ball 0 vzero, ball 1 vzero] 0) 0) ! 0) = Vec3 (- 1 / 2) 0 0
   \<and> position (objects (tick (scene [ball 0 (Vec3 1 0 0)] 0) (- 1)) ! 0) = Vec3 (- 1) 0 0"
proof -
  have "trail (objects (tick (scene [ball 0 vzero] 2) 0) ! 0) = [Vec3 0 0 0]"
    by (simp add: tick_def steps_0 physicsTimeStep_def substep_def integrate_def
        resolveCollisions_def collideFrom_def updatePositions_def updateAt_def
        updatePosition_def calculateForces_def forcesOn_def calculateGravitationalForce_def
        resetAccelerations_def Let_def scene_def ball_def new_Object3D_def vadd_def smul_def
        vzero_def actualDt_def MAX_TIMESTEP_def maxTrailLength_def)
  moreover
  have "position (objects (tick (scene [ball 0 vzero, ball 1 vzero] 0) 0) ! 0)
      = Vec3 (- 1 / 2) 0 0"
    by (simp add: tick_def steps_0 physicsTimeStep_def substep_def integrate_def
        resolveCollisions_def collideFrom_def collidePair_def CheckCollision_def
        ResolveCollision_def overlap_def collisionNormal_def velAlongNormal_def
        updatePositions_def updateAt_def updatePosition_def calculateForces_def forcesOn_def
        calculateGravitationalForce_def applyForce_def gravitationalForce_def
        resetAccelerations_def Let_def upt_2 scene_def ball_def new_Object3D_def vsub_def
        vlength_x_axis normalize_x_axis vadd_def smul_def sdiv_def dot_def vzero_def
        actualDt_def MAX_TIMESTEP_def)
  moreover
  have "position (objects (tick (scene [ball 0 (Vec3 1 0 0)] 0) (- 1)) ! 0) = Vec3 (- 1) 0 0"
    using free_body_tick [of "scene [ball 0 (Vec3 1 0 0)] 0" "ball 0 (Vec3 1 0 0)" "- 1"]
    by (simp add: steps_neg physicsTimeStep_def actualDt_def
        simulationSpeed_def MAX_TIMESTEP_def scene_def ball_def new_Object3D_def vadd_def
        smul_def)
  ultimately show ?thesis
    by (simp add: steps_0 scene_def ball_def new_Object3D_def vzero_def)
qed

subsection \<open>Separation of overlapping bodies\<close>

lemma dot_nonneg: "0 \<le> dot v v"
  by (simp add: dot_def)

lemma vlength_nonneg: "0 \<le> vlength v"
  by (simp add: vlength_def dot_nonneg)

lemma abs_vx_le_vlength: "\<bar>vx v\<bar> \<le> vlength v"
proof -
  have "(vx v)\<^sup>2 \<le> dot v v"
    by (simp add: dot_def power2_eq_square)
  then have "sqrt ((vx v)\<^sup>2) \<le> sqrt (dot v v)"
    by (rule real_sqrt_le_mono)
  then show ?thesis by (simp add: vlength_def)
qed

lemma normalize_scale: "normalize_vec v = smul v (1 / vlength v)"
  by (simp add: normalize_vec_def vlength_def)

lemma normalize_towards: "normalize_vec (vsub (position other) (position this)) = towards this other"
  by (simp add: normalize_scale towards_def smul_def sdiv_def)

lemma vlength_normalize: "0 < vlength v \<Longrightarrow> vlength (normalize_vec v) = 1"
  by (simp add: normalize_scale vlength_smul)

lemma vlength_collisionNormal: "vlength (collisionNormal a b) = 1"
proof (cases "1 / 1000 < vlength (vsub (position b) (position a))")
  case True
  then have "0 < vlength (vsub (position b) (position a))" by simp
  then show ?thesis
    using True by (simp add: collisionNormal_def Let_def vlength_normalize)
next
  case False
  then show ?thesis
    by (simp add: collisionNormal_def Let_def vlength_x_axis)
qed

lemma separate_delta:
  "ra + rb = 1 \<Longrightarrow>
   vsub (vadd pb (smul s rb)) (vsub pa (smul s ra)) = vadd (vsub pb pa) s"
  by (cases s) (simp add: vsub_def vadd_def smul_def algebra_simps flip: distrib_left)

lemma ratios: "0 < (ma::real) \<Longrightarrow> 0 < mb \<Longrightarrow> mb / (ma + mb) + ma / (ma + mb) = 1"
proof -
  assume "0 < ma" "0 < mb"
  then have "ma + mb \<noteq> 0" by simp
  then have "(mb + ma) / (ma + mb) = 1" by (simp add: add.commute)
  then show ?thesis by (simp only: add_divide_distrib)
qed

lemma ResolveCollision_positions:
  assumes "\<not> fixed a" "\<not> fixed b" "0 < overlap a b"
  shows "position (fst (ResolveCollision a b)) =
           vsub (position a)
             (smul (smul (collisionNormal a b) (overlap a b)) (mass b / (mass a + mass b)))"
    and "position (snd (ResolveCollision a b)) =
           vadd (position b)
             (smul (smul (collisionNormal a b) (overlap a b)) (mass a / (mass a + mass b)))"
  using assms by (simp_all add: ResolveCollision_def Let_def)

lemma resolved_delta:
  assumes "\<not> fixed a" "\<not> fixed b" "0 < overlap a b" "0 < mass a" "0 < mass b"
  shows "vsub (position (snd (ResolveCollision a b))) (position (fst (ResolveCollision a b)))
       = vadd (vsub (position b) (position a)) (smul (collisionNormal a b) (overlap a b))"
  using assms ratios [of "mass a" "mass b"]
  by (simp add: ResolveCollision_positions separate_delta)

lemma resolved_distance_normal:
  assumes "\<not> fixed a" "\<not> fixed b" "0 < overlap a b" "0 < mass a" "0 < mass b"
    and far: "1 / 1000 < vlength (vsub (position b) (position a))"
  shows "vlength (vsub (position (snd (ResolveCollision a b)))
                       (position (fst (ResolveCollision a b))))
       = radius a + radius b"
proof -
  let ?d = "vsub (position b) (position a)"
  have pos: "0 < vlength ?d" using far by simp
  have n: "collisionNormal a b = smul ?d (1 / vlength ?d)"
    using far by (simp add: collisionNormal_def Let_def normalize_scale)
  have "vadd ?d (smul (smul ?d (1 / vlength ?d)) (overlap a b))
      = smul ?d (1 + overlap a b / vlength ?d)"
    by (simp add: vadd_def smul_def algebra_simps)
  then have "vlength (vadd ?d (smul (collisionNormal a b) (overlap a b)))
      = \<bar>1 + overlap a b / vlength ?d\<bar> * vlength ?d"
    by (simp add: n vlength_smul)
  also have "\<dots> = (1 + overlap a b / vlength ?d) * vlength ?d"
    using assms(3) pos by simp
  also have "\<dots> = vlength ?d + overlap a b"
    using pos by (simp add: field_simps)
  also have "\<dots> = radius a + radius b"
    by (simp add: overlap_def)
  finally show ?thesis
    using assms by (simp add: resolved_delta)
qed

lemma resolved_distance_fallback:
  assumes "\<not> fixed a" "\<not> fixed b" "0 < overlap a b" "0 < mass a" "0 < mass b"
    and near: "\<not> 1 / 1000 < vlength (vsub (position b) (position a))"
  shows "radius a + radius b - 2 / 1000
       \<le> vlength (vsub (position (snd (ResolveCollision a b)))
                         (position (fst (ResolveCollision a b))))"
proof -
  let ?d = "vsub (position b) (position a)"
  let ?e = "vadd ?d (smul (Vec3 1 0 0) (overlap a b))"
  have n: "collisionNormal a b = Vec3 1 0 0"
    using near by (simp add: collisionNormal_def Let_def)
  have "overlap a b - \<bar>vx ?d\<bar> \<le> \<bar>vx ?e\<bar>"
    by (simp add: vadd_def smul_def)
  also have "\<dots> \<le> vlength ?e"
    by (rule abs_vx_le_vlength)
  finally have "overlap a b - \<bar>vx ?d\<bar> \<le> vlength ?e" .
  moreover have "\<bar>vx ?d\<bar> \<le> vlength ?d"
    by (rule abs_vx_le_vlength)
  ultimately have "radius a + radius b - 2 * vlength ?d \<le> vlength ?e"
    by (simp add: overlap_def)
  then have "radius a + radius b - 2 / 1000 \<le> vlength ?e"
    using near by simp
  then show ?thesis
    using assms by (simp add: resolved_delta n)
qed

lemma ResolveCollision_radius:
  "radius (fst (ResolveCollision a b)) = radius a"
  "radius (snd (ResolveCollision a b)) = radius b"
  by (simp_all add: ResolveCollision_def Let_def)

text \<open>
  Claim C7 (as amended). For two overlapping bodies, neither fixed, of positive masses, one
  call of \<open>ResolveCollision\<close> moves the first against the collision normal and the second
  along it. The normal has length one, and the two displacements share the overlap in
  inverse proportion to the masses: the first body moves by \<open>overlap * m\<^sub>b / (m\<^sub>a + m\<^sub>b)\<close>, the
  second by \<open>overlap * m\<^sub>a / (m\<^sub>a + m\<^sub>b)\<close>. When the centres are more than 0.001 apart, the
  normal is the unit vector from the first centre toward the second, the bodies move
  apart, and afterwards the centres are exactly the sum of the radii apart: the overlap
  is zero, less than before. When the centres are at most 0.001 apart the normal is the
  fallback axis, and all that remains is that the centres end at least the sum of the
  radii minus 0.002 apart.
\<close>

theorem ResolveCollision_separates:
  assumes "\<not> fixed a" and "\<not> fixed b" and "0 < overlap a b"
    and "0 < mass a" and "0 < mass b"
  shows "position (fst (ResolveCollision a b)) =
           vsub (position a)
             (smul (smul (collisionNormal a b) (overlap a b)) (mass b / (mass a + mass b)))
       \<and> position (snd (ResolveCollision a b)) =
           vadd (position b)
             (smul (smul (collisionNormal a b) (overlap a b)) (mass a / (mass a + mass b)))
       \<and> vlength (collisionNormal a b) = 1
       \<and> vlength (vsub (position (fst (ResolveCollision a b))) (position a))
           = overlap a b * (mass b / (mass a + mass b))
       \<and> vlength (vsub (position (snd (ResolveCollision a b))) (position b))
           = overlap a b * (mass a / (mass a + mass b))
       \<and> radius a + radius b - 2 / 1000
           \<le> vlength (vsub (position (snd (ResolveCollision a b)))
                             (position (fst (ResolveCollision a b))))
       \<and> (1 / 1000 < vlength (vsub (position b) (position a)) \<longrightarrow>
            collisionNormal a b = towards a b
            \<and> vlength (vsub (position (snd (ResolveCollision a b)))
                            (position (fst (ResolveCollision a b))))
                = radius a + radius b
            \<and> vlength (vsub (position b) (position a))
                < vlength (vsub (position (snd (ResolveCollision a b)))
                                (position (fst (ResolveCollision a b))))
            \<and> overlap (fst (ResolveCollision a b)) (snd (ResolveCollision a b)) = 0
            \<and> overlap (fst (ResolveCollision a b)) (snd (ResolveCollision a b))
                < overlap a b)"
proof -
  let ?s = "smul (collisionNormal a b) (overlap a b)"
  let ?new = "vlength (vsub (position (snd (ResolveCollision a b)))
                            (position (fst (ResolveCollision a b))))"
  have da: "vsub (vsub p (smul ?s k)) p = smul ?s (- k)" for p k
    by (simp add: vsub_def smul_def)
  have db: "vsub (vadd p (smul ?s k)) p = smul ?s k" for p k
    by (simp add: vsub_def vadd_def smul_def)
  have la: "vlength (vsub (position (fst (ResolveCollision a b))) (position a))
           = overlap a b * (mass b / (mass a + mass b))"
    using assms by (simp add: ResolveCollision_positions da vlength_smul vlength_collisionNormal)
  have lb: "vlength (vsub (position (snd (ResolveCollision a b))) (position b))
           = overlap a b * (mass a / (mass a + mass b))"
    using assms by (simp add: ResolveCollision_positions db vlength_smul vlength_collisionNormal)
  have ge: "radius a + radius b - 2 / 1000 \<le> ?new"
  proof (cases "1 / 1000 < vlength (vsub (position b) (position a))")
    case True
    then show ?thesis using resolved_distance_normal [OF assms] by simp
  next
    case False
    then show ?thesis using resolved_distance_fallback [OF assms] by simp
  qed
  have n1: "vlength (collisionNormal a b) = 1"
    by (rule vlength_collisionNormal)
  have far: "collisionNormal a b = towards a b
            \<and> ?new = radius a + radius b
            \<and> vlength (vsub (position b) (position a)) < ?new
            \<and> overlap (fst (ResolveCollision a b)) (snd (ResolveCollision a b)) = 0
            \<and> overlap (fst (ResolveCollision a b)) (snd (ResolveCollision a b))
                < overlap a b"
    if f: "1 / 1000 < vlength (vsub (position b) (position a))"
  proof -
    have t: "collisionNormal a b = towards a b"
      using f by (simp add: collisionNormal_def Let_def normalize_towards)
    have e: "?new = radius a + radius b"
      using f by (rule resolved_distance_normal [OF assms])
    have m: "vlength (vsub (position b) (position a)) < ?new"
      using assms(3) e by (simp add: overlap_def)
    have z: "overlap (fst (ResolveCollision a b)) (snd (ResolveCollision a b)) = 0"
      unfolding overlap_def [of "fst (ResolveCollision a b)"] ResolveCollision_radius e
      by simp
    show ?thesis using t e m z assms(3) by simp
  qed
  from ResolveCollision_positions [OF assms(1-3)] n1 la lb ge far
  show ?thesis by blast
qed

theorem ResolveCollision_separates_witness:
  "\<not> fixed (ball 0 vzero) \<and> \<not> fixed ((ball 1 vzero)\<lparr>mass := 30\<rparr>)
   \<and> overlap (ball 0 vzero) ((ball 1 vzero)\<lparr>mass := 30\<rparr>) = 1
   \<and> vlength (vsub (position ((ball 1 vzero)\<lparr>mass := 30\<rparr>)) (position (ball 0 vzero))) = 1
   \<and> position (fst (ResolveCollision (ball 0 vzero) ((ball 1 vzero)\<lparr>mass := 30\<rparr>)))
       = Vec3 (- 3 / 4) 0 0
   \<and> position (snd (ResolveCollision (ball 0 vzero) ((ball 1 vzero)\<lparr>mass := 30\<rparr>)))
       = Vec3 (5 / 4) 0 0
   \<and> vlength (vsub (position (snd (ResolveCollision (ball 0 vzero) ((ball 1 vzero)\<lparr>mass := 30\<rparr>))))
                    (position (fst (ResolveCollision (ball 0 vzero) ((ball 1 vzero)\<lparr>mass := 30\<rparr>)))))
       = 2
   \<and> overlap (fst (ResolveCollision (ball 0 vzero) ((ball 1 vzero)\<lparr>mass := 30\<rparr>)))
               (snd (ResolveCollision (ball 0 vzero) ((ball 1 vzero)\<lparr>mass := 30\<rparr>))) = 0"
proof -
  let ?a = "ball 0 vzero" and ?b = "(ball 1 vzero)\<lparr>mass := 30\<rparr>"
  have f: "\<not> fixed ?a" "\<not> fixed ?b" and m: "0 < mass ?a" "0 < mass ?b"
    by (simp_all add: ball_def new_Object3D_def)
  have ov: "overlap ?a ?b = 1"
    by (simp add: overlap_def ball_def new_Object3D_def vsub_def vzero_def vlength_x_axis)
  have d: "vlength (vsub (position ?b) (position ?a)) = 1"
    by (simp add: ball_def new_Object3D_def vsub_def vzero_def vlength_x_axis)
  have far: "1 / 1000 < vlength (vsub (position ?b) (position ?a))"
    by (simp add: ball_def new_Object3D_def vsub_def vzero_def vlength_x_axis)
  have ov0: "0 < overlap ?a ?b" by (simp add: ov)
  from ResolveCollision_separates [OF f ov0 m] far
  have "position (fst (ResolveCollision ?a ?b)) =
           vsub (position ?a) (smul (smul (collisionNormal ?a ?b) (overlap ?a ?b))
              (mass ?b / (mass ?a + mass ?b)))"
    and "position (snd (ResolveCollision ?a ?b)) =
           vadd (position ?b) (smul (smul (collisionNormal ?a ?b) (overlap ?a ?b))
              (mass ?a / (mass ?a + mass ?b)))"
    and "vlength (vsub (position (snd (ResolveCollision ?a ?b)))
                          (position (fst (ResolveCollision ?a ?b))))
              = radius ?a + radius ?b"
    and z: "overlap (fst (ResolveCollision ?a ?b)) (snd (ResolveCollision ?a ?b)) = 0"
    by blast+
  then show ?thesis
    using f ov d
    by (simp add: ball_def new_Object3D_def collisionNormal_def overlap_def vsub_def vadd_def
        smul_def vzero_def vlength_x_axis normalize_x_axis)
qed

text \<open>
  The claim as first stated fails on the fallback axis. Two specks of radius 1/2000, the
  second 1/2000 to the left of the first, overlap by 1/2000; the call moves the first to
  the left and the second to the right, onto the same point, and the overlap is then
  1/1000.
\<close>

theorem ResolveCollision_separates_counterexample:
  "\<not> fixed (speck 0) \<and> \<not> fixed (speck (- 1 / 2000))
   \<and> vlength (vsub (position (speck (- 1 / 2000))) (position (speck 0))) = 1 / 2000
   \<and> overlap (speck 0) (speck (- 1 / 2000)) = 1 / 2000
   \<and> collisionNormal (speck 0) (speck (- 1 / 2000)) = Vec3 1 0 0
   \<and> position (fst (ResolveCollision (speck 0) (speck (- 1 / 2000)))) = Vec3 (- 1 / 4000) 0 0
   \<and> position (snd (ResolveCollision (speck 0) (speck (- 1 / 2000)))) = Vec3 (- 1 / 4000) 0 0
   \<and> vlength (vsub (position (snd (ResolveCollision (speck 0) (speck (- 1 / 2000)))))
                    (position (fst (ResolveCollision (speck 0) (speck (- 1 / 2000)))))) = 0
   \<and> overlap (fst (ResolveCollision (speck 0) (speck (- 1 / 2000))))
               (snd (ResolveCollision (speck 0) (speck (- 1 / 2000)))) = 1 / 1000"
proof -
  let ?a = "speck 0" and ?b = "speck (- 1 / 2000)"
  have d: "vlength (vsub (position ?b) (position ?a)) = 1 / 2000"
    by (simp add: speck_def new_Object3D_def vsub_def vlength_x_axis)
  have ov: "overlap ?a ?b = 1 / 2000"
    by (simp add: overlap_def speck_def new_Object3D_def vsub_def vlength_x_axis)
  have n: "collisionNormal ?a ?b = Vec3 1 0 0"
    by (simp add: collisionNormal_def speck_def new_Object3D_def vsub_def vlength_x_axis)
  have f: "\<not> fixed ?a" "\<not> fixed ?b"
    by (simp_all add: speck_def new_Object3D_def)
  have ov0: "0 < overlap ?a ?b" using ov by simp
  have pa: "position (fst (ResolveCollision ?a ?b)) = Vec3 (- 1 / 4000) 0 0"
    unfolding ResolveCollision_positions(1) [OF f ov0] ov n
    by (simp add: speck_def new_Object3D_def vsub_def smul_def)
  have pb: "position (snd (ResolveCollision ?a ?b)) = Vec3 (- 1 / 4000) 0 0"
    unfolding ResolveCollision_positions(2) [OF f ov0] ov n
    by (simp add: speck_def new_Object3D_def vadd_def smul_def)
  have dn: "vlength (vsub (position (snd (ResolveCollision ?a ?b)))
                          (position (fst (ResolveCollision ?a ?b)))) = 0"
    using pa pb by (simp add: vsub_def vlength_x_axis)
  have "overlap (fst (ResolveCollision ?a ?b)) (snd (ResolveCollision ?a ?b)) = 1 / 1000"
    unfolding overlap_def [of "fst (ResolveCollision ?a ?b)"] ResolveCollision_radius dn
    by (simp add: speck_def new_Object3D_def)
  then show ?thesis
    using f d ov n pa pb dn by simp
qed

subsection \<open>Gravitation\<close>

lemma pull_acceleration [simp]:
  "pull (a\<lparr>acceleration := x\<rparr>) b = pull a b"
  "pull a (b\<lparr>acceleration := x\<rparr>) = pull a b"
  by (simp_all add: pull_def gravitationalForce_def)

lemma calculateGravitationalForce_movable:
  assumes "\<not> fixed (os ! i)" "j \<noteq> i"
  shows "calculateGravitationalForce os i j =
     os[i := (os ! i)\<lparr>acceleration := vadd (acceleration (os ! i)) (pull (os ! i) (os ! j))\<rparr>]"
  using assms by (simp add: calculateGravitationalForce_def applyForce_def pull_def)

lemma forces_on_body:
  assumes "i < length os" "\<not> fixed (os ! i)"
  shows "foldl (\<lambda>os j. calculateGravitationalForce os i j) os js =
     os[i := (os ! i)\<lparr>acceleration :=
        foldl vadd (acceleration (os ! i))
          (map (\<lambda>j. pull (os ! i) (os ! j)) (filter (\<lambda>j. j \<noteq> i) js))\<rparr>]"
  using assms
proof (induction js arbitrary: os)
  case Nil
  then show ?case by simp
next
  case (Cons j js)
  show ?case
  proof (cases "j = i")
    case True
    then show ?thesis
      using Cons by (simp add: calculateGravitationalForce_def)
  next
    case False
    let ?o1 = "(os ! i)\<lparr>acceleration := vadd (acceleration (os ! i)) (pull (os ! i) (os ! j))\<rparr>"
    let ?os1 = "os[i := ?o1]"
    have s: "calculateGravitationalForce os i j = ?os1"
      using Cons.prems False by (rule_tac calculateGravitationalForce_movable)
    have i1: "i < length ?os1" "\<not> fixed (?os1 ! i)" "?os1 ! i = ?o1"
      using Cons.prems by simp_all
    have m: "map (\<lambda>k. pull (os ! i) (?os1 ! k)) (filter (\<lambda>k. k \<noteq> i) js)
           = map (\<lambda>k. pull (os ! i) (os ! k)) (filter (\<lambda>k. k \<noteq> i) js)"
      by (intro map_cong) auto
    show ?thesis
      using Cons.IH [OF i1(1) i1(2)] False Cons.prems
      by (simp add: s m)
  qed
qed

lemma accelerated_refl: "accelerated os os"
proof -
  have "\<exists>acc. os ! k = (os ! k)\<lparr>acceleration := acc\<rparr>" for k
    by (rule exI [of _ "acceleration (os ! k)"]) simp
  then show ?thesis by (simp add: accelerated_def)
qed

lemma accelerated_update:
  assumes "accelerated os0 os" and "k < length os \<Longrightarrow> \<exists>acc. x = (os ! k)\<lparr>acceleration := acc\<rparr>"
  shows "accelerated os0 (os[k := x])"
proof -
  have "\<exists>acc. os[k := x] ! i = (os0 ! i)\<lparr>acceleration := acc\<rparr>" if i: "i < length os0" for i
  proof (cases "i = k")
    case True
    from assms i True have "\<exists>acc. x = (os ! k)\<lparr>acceleration := acc\<rparr>"
      and "\<exists>acc. os ! k = (os0 ! k)\<lparr>acceleration := acc\<rparr>"
      by (simp_all add: accelerated_def)
    then obtain a1 a2 where "x = (os ! k)\<lparr>acceleration := a1\<rparr>"
      "os ! k = (os0 ! k)\<lparr>acceleration := a2\<rparr>"
      by blast
    then have "x = (os0 ! k)\<lparr>acceleration := a1\<rparr>" by simp
    then show ?thesis using assms(1) i True by (auto simp: accelerated_def)
  next
    case False
    then show ?thesis using assms(1) i by (simp add: accelerated_def)
  qed
  then show ?thesis using assms(1) by (simp add: accelerated_def)
qed

lemma accelerated_calculateGravitationalForce:
  assumes "accelerated os0 os"
  shows "accelerated os0 (calculateGravitationalForce os i j)"
proof (cases "j = i")
  case True
  then show ?thesis using assms by (simp add: calculateGravitationalForce_def)
next
  case False
  have "\<exists>acc. applyForce (os ! i) f = (os ! i)\<lparr>acceleration := acc\<rparr>" for f
  proof (cases "fixed (os ! i)")
    case True
    then show ?thesis
      by (intro exI [of _ "acceleration (os ! i)"]) (simp add: applyForce_def)
  next
    case False
    then show ?thesis by (auto simp: applyForce_def)
  qed
  then show ?thesis
    using assms False by (simp add: calculateGravitationalForce_def accelerated_update)
qed

lemma accelerated_forcesOn: "accelerated os0 os \<Longrightarrow> accelerated os0 (forcesOn os i)"
  unfolding forcesOn_def
  by (rule foldl_invariant) (simp_all add: accelerated_calculateGravitationalForce)

lemma accelerated_forces: "accelerated os0 os \<Longrightarrow> accelerated os0 (foldl forcesOn os ks)"
  by (rule foldl_invariant) (simp_all add: accelerated_forcesOn)

lemma forcesOn_other: "k \<noteq> i \<Longrightarrow> forcesOn os k ! i = os ! i"
  unfolding forcesOn_def
  by (rule foldl_invariant [where I = "\<lambda>s. s ! i = os ! i"])
     (simp_all add: calculateGravitationalForce_def)

lemma forces_other: "i \<notin> set ks \<Longrightarrow> foldl forcesOn os ks ! i = os ! i"
  by (induction ks arbitrary: os) (simp_all add: forcesOn_other)

lemma forcesOn_self:
  assumes "i < length os" "\<not> fixed (os ! i)"
  shows "acceleration (forcesOn os i ! i) =
     foldl vadd (acceleration (os ! i))
       (map (\<lambda>j. pull (os ! i) (os ! j)) (filter (\<lambda>j. j \<noteq> i) [0..<length os]))"
  using assms by (simp add: forcesOn_def forces_on_body)

lemma accelerated_pull:
  assumes "accelerated os0 os" "i < length os0" "j < length os0"
  shows "pull (os ! i) (os ! j) = pull (os0 ! i) (os0 ! j)"
proof -
  from assms have "\<exists>acc. os ! i = (os0 ! i)\<lparr>acceleration := acc\<rparr>"
    and "\<exists>acc. os ! j = (os0 ! j)\<lparr>acceleration := acc\<rparr>"
    by (simp_all add: accelerated_def)
  then obtain a1 a2 where "os ! i = (os0 ! i)\<lparr>acceleration := a1\<rparr>"
    "os ! j = (os0 ! j)\<lparr>acceleration := a2\<rparr>"
    by blast
  then show ?thesis by simp
qed

lemma calculateForces_acceleration:
  assumes "i < length objs" "\<not> fixed (objs ! i)"
  shows "acceleration (calculateForces objs ! i) =
     foldl vadd (acceleration (objs ! i))
       (map (\<lambda>j. pull (objs ! i) (objs ! j)) (filter (\<lambda>j. j \<noteq> i) [0..<length objs]))"
proof -
  let ?n = "length objs"
  let ?os1 = "foldl forcesOn objs [0..<i]"
  let ?os2 = "forcesOn ?os1 i"
  have split: "[0..<?n] = [0..<i] @ i # [Suc i..<?n]"
  proof -
    have "[0..<i + (?n - i)] = [0..<i] @ [i..<i + (?n - i)]"
      by (rule upt_add_eq_append) simp
    then have "[0..<?n] = [0..<i] @ [i..<?n]"
      using assms(1) by simp
    then show ?thesis
      using assms(1) by (simp add: upt_conv_Cons)
  qed
  have a1: "accelerated objs ?os1"
    by (rule accelerated_forces) (rule accelerated_refl)
  then have len1: "length ?os1 = ?n" by (simp add: accelerated_def)
  have same1: "?os1 ! i = objs ! i"
    by (rule forces_other) simp
  have "calculateForces objs = foldl forcesOn ?os2 [Suc i..<?n]"
    by (simp add: calculateForces_def split)
  then have e1: "calculateForces objs ! i = ?os2 ! i"
    by (simp add: forces_other)
  have e2: "acceleration (?os2 ! i) =
     foldl vadd (acceleration (?os1 ! i))
       (map (\<lambda>j. pull (?os1 ! i) (?os1 ! j)) (filter (\<lambda>j. j \<noteq> i) [0..<length ?os1]))"
    using assms by (intro forcesOn_self) (simp_all add: len1 same1)
  have e3: "map (\<lambda>j. pull (objs ! i) (?os1 ! j)) (filter (\<lambda>j. j \<noteq> i) [0..<?n])
      = map (\<lambda>j. pull (objs ! i) (objs ! j)) (filter (\<lambda>j. j \<noteq> i) [0..<?n])"
  proof (rule map_cong [OF refl])
    fix j assume "j \<in> set (filter (\<lambda>j. j \<noteq> i) [0..<?n])"
    then have "j < ?n" by simp
    with accelerated_pull [OF a1 assms(1), of j] same1
    show "pull (objs ! i) (?os1 ! j) = pull (objs ! i) (objs ! j)" by simp
  qed
  show ?thesis
    by (simp only: e1 e2 len1 same1 e3)
qed

lemma pull_formula:
  "pull this other =
     smul (normalize_vec (vsub (position other) (position this)))
       (G * mass this * mass other /
          (max (vlength (vsub (position other) (position this)))
               ((radius this + radius other) * 2))\<^sup>2 / mass this)"
  by (simp add: pull_def gravitationalForce_def Let_def sdiv_def smul_def power2_eq_square)

lemma vlength_zero_iff: "vlength v = 0 \<longleftrightarrow> v = vzero"
proof -
  have "dot v v = 0 \<longleftrightarrow> vx v = 0 \<and> vy v = 0 \<and> vz v = 0"
    by (simp add: dot_def sum_squares_eq_zero_iff add_nonneg_eq_0_iff)
  then show ?thesis
    by (cases v) (simp add: vlength_def vzero_def)
qed

lemma vsub_zero_iff: "vsub a b = vzero \<longleftrightarrow> a = b"
  by (cases a; cases b) (simp add: vsub_def vzero_def)

lemma vlength_towards:
  assumes "position other \<noteq> position this"
  shows "vlength (towards this other) = 1"
proof -
  have "vsub (position other) (position this) \<noteq> vzero"
    using assms by (simp add: vsub_zero_iff)
  then have "vlength (vsub (position other) (position this)) \<noteq> 0"
    by (simp add: vlength_zero_iff)
  then have "0 < vlength (vsub (position other) (position this))"
    using vlength_nonneg [of "vsub (position other) (position this)"] by simp
  then show ?thesis
    by (simp add: normalize_towards [symmetric] vlength_normalize)
qed

lemma pull_towards:
  "pull this other =
     smul (towards this other)
       (G * mass this * mass other / (clampedDistance this other)\<^sup>2 / mass this)"
  by (simp add: pull_formula normalize_towards clampedDistance_def)

text \<open>
  Claim C4. For a body \<open>i\<close> that is not fixed, one pass of force accumulation adds to its
  acceleration one vector for every other body \<open>j\<close>, the one that the call for the pair
  adds. That vector is the unit vector from the position of \<open>i\<close> toward the position of \<open>j\<close>
  scaled by \<open>G * m\<^sub>i * m\<^sub>j / d\<^sup>2 / m\<^sub>i\<close>, where \<open>d\<close> is the distance between the two positions
  clamped below by \<open>(r\<^sub>i + r\<^sub>j) * 2\<close>; for distinct positions and positive masses the unit
  vector has length one and the added vector has that magnitude.
\<close>

theorem gravitational_acceleration:
  assumes "i < length objs" and "\<not> fixed (objs ! i)"
  shows "acceleration (calculateForces objs ! i) =
           foldl vadd (acceleration (objs ! i))
             (map (\<lambda>j. pull (objs ! i) (objs ! j)) (filter (\<lambda>j. j \<noteq> i) [0..<length objs]))
       \<and> (j \<noteq> i \<longrightarrow>
            acceleration (calculateGravitationalForce objs i j ! i)
              = vadd (acceleration (objs ! i)) (pull (objs ! i) (objs ! j)))
       \<and> pull (objs ! i) (objs ! j) =
            smul (towards (objs ! i) (objs ! j))
              (G * mass (objs ! i) * mass (objs ! j)
                 / (clampedDistance (objs ! i) (objs ! j))\<^sup>2 / mass (objs ! i))
       \<and> (position (objs ! j) \<noteq> position (objs ! i) \<and> 0 < mass (objs ! i)
            \<and> 0 < mass (objs ! j) \<longrightarrow>
            vlength (towards (objs ! i) (objs ! j)) = 1
            \<and> vlength (pull (objs ! i) (objs ! j)) =
                G * mass (objs ! i) * mass (objs ! j)
                  / (clampedDistance (objs ! i) (objs ! j))\<^sup>2 / mass (objs ! i))"
proof -
  let ?k = "G * mass (objs ! i) * mass (objs ! j)
                 / (clampedDistance (objs ! i) (objs ! j))\<^sup>2 / mass (objs ! i)"
  have one: "acceleration (calculateGravitationalForce objs i j ! i)
              = vadd (acceleration (objs ! i)) (pull (objs ! i) (objs ! j))" if "j \<noteq> i"
    using assms that by (simp add: calculateGravitationalForce_movable)
  have mag: "vlength (towards (objs ! i) (objs ! j)) = 1
            \<and> vlength (pull (objs ! i) (objs ! j)) = ?k"
    if h: "position (objs ! j) \<noteq> position (objs ! i) \<and> 0 < mass (objs ! i)
            \<and> 0 < mass (objs ! j)"
  proof -
    have u: "vlength (towards (objs ! i) (objs ! j)) = 1"
      using h by (simp add: vlength_towards)
    have "0 \<le> ?k"
      using h by (simp add: G_def)
    then have "vlength (smul (towards (objs ! i) (objs ! j)) ?k) = ?k"
      by (simp only: vlength_smul u)
    then show ?thesis
      using u by (simp only: pull_towards)
  qed
  from calculateForces_acceleration [OF assms] one pull_towards [of "objs ! i" "objs ! j"] mag
  show ?thesis by blast
qed

theorem gravitational_acceleration_witness:
  "(0::nat) < length [ball 0 vzero, star 3, ball 10 vzero]
   \<and> \<not> fixed ([ball 0 vzero, star 3, ball 10 vzero] ! 0)
   \<and> position (ball 10 vzero) \<noteq> position (ball 0 vzero)
   \<and> clampedDistance (ball 0 vzero) (ball 10 vzero) = 10
   \<and> clampedDistance (ball 0 vzero) (star 3) = 5
   \<and> towards (ball 0 vzero) (ball 10 vzero) = Vec3 1 0 0
   \<and> pull (ball 0 vzero) (ball 10 vzero) = Vec3 (6674 / 10000) 0 0
   \<and> vlength (pull (ball 0 vzero) (ball 10 vzero)) = 6674 / 10000
   \<and> acceleration (calculateForces [ball 0 vzero, star 3, ball 10 vzero] ! 0)
       = Vec3 (13354674 / 10000) 0 0"
proof -
  let ?objs = "[ball 0 vzero, star 3, ball 10 vzero]"
  have h: "0 < length ?objs" "\<not> fixed (?objs ! 0)"
    by (simp_all add: ball_def new_Object3D_def)
  have d: "position (ball 10 vzero) \<noteq> position (ball 0 vzero)"
      "0 < mass (ball 0 vzero)" "0 < mass (ball 10 vzero)"
    by (simp_all add: ball_def new_Object3D_def)
  have c: "clampedDistance (ball 0 vzero) (ball 10 vzero) = 10"
      "clampedDistance (ball 0 vzero) (star 3) = 5"
    by (simp_all add: clampedDistance_def ball_def star_def new_Object3D_def vsub_def
        vlength_x_axis)
  have t: "towards (ball 0 vzero) (ball 10 vzero) = Vec3 1 0 0"
      "towards (ball 0 vzero) (star 3) = Vec3 1 0 0"
    by (simp_all add: towards_def ball_def star_def new_Object3D_def vsub_def vlength_x_axis
        sdiv_def)
  have m: "mass (ball 0 vzero) = 10" "mass (ball 10 vzero) = 10" "mass (star 3) = 5000"
    by (simp_all add: ball_def star_def new_Object3D_def)
  let ?k = "\<lambda>this other. G * mass this * mass other / (clampedDistance this other)\<^sup>2 / mass this"
  have d': "position (?objs ! 2) \<noteq> position (?objs ! 0)"
      "0 < mass (?objs ! 0)" "0 < mass (?objs ! 2)"
    using d by simp_all
  from gravitational_acceleration [OF h, of 2] d'
  have "pull (?objs ! 0) (?objs ! 2) = smul (towards (?objs ! 0) (?objs ! 2)) (?k (?objs ! 0) (?objs ! 2))"
    and "vlength (pull (?objs ! 0) (?objs ! 2)) = ?k (?objs ! 0) (?objs ! 2)"
    by blast+
  then have p2: "pull (ball 0 vzero) (ball 10 vzero) = Vec3 (6674 / 10000) 0 0"
    and l2: "vlength (pull (ball 0 vzero) (ball 10 vzero)) = 6674 / 10000"
    by (simp_all add: c t m G_def smul_def)
  from gravitational_acceleration [OF h, of 1]
  have "pull (?objs ! 0) (?objs ! 1) = smul (towards (?objs ! 0) (?objs ! 1)) (?k (?objs ! 0) (?objs ! 1))"
    by blast
  then have p1: "pull (ball 0 vzero) (star 3) = Vec3 (13348 / 10) 0 0"
    by (simp add: c t m G_def smul_def)
  from gravitational_acceleration [OF h, of 2]
  have "acceleration (calculateForces ?objs ! 0) =
           foldl vadd (acceleration (?objs ! 0))
             (map (\<lambda>j. pull (?objs ! 0) (?objs ! j)) (filter (\<lambda>j. j \<noteq> 0) [0..<length ?objs]))"
    by blast
  then have "acceleration (calculateForces ?objs ! 0) = Vec3 (13354674 / 10000) 0 0"
    by (simp add: upt_rec p1 p2 vadd_def) (simp add: ball_def new_Object3D_def vzero_def)
  then show ?thesis
    using h d c t p2 l2 by simp
qed

subsection \<open>Momentum of two bodies\<close>

lemma foldl_unchanged: "(\<And>x. x \<in> set xs \<Longrightarrow> f s x = s) \<Longrightarrow> foldl f s xs = s"
  by (induction xs) simp_all

lemma resolveCollisions_none:
  assumes "\<not> anyCollision objs"
  shows "resolveCollisions objs = objs"
proof -
  have "collideFrom objs i = objs" if "i \<in> set [0..<length objs]" for i
    unfolding collideFrom_def
  proof (rule foldl_unchanged)
    fix j assume "j \<in> set [Suc i..<length objs]"
    with assms that have "\<not> CheckCollision (objs ! i) (objs ! j)"
      unfolding anyCollision_def by blast
    then show "collidePair objs i j = objs"
      by (simp add: collidePair_def)
  qed
  then show ?thesis
    unfolding resolveCollisions_def by (rule foldl_unchanged)
qed

lemma substep_none:
  "\<not> anyCollision (objects (integrate dt w)) \<Longrightarrow> substep dt w = integrate dt w"
  by (simp add: substep_def Let_def resolveCollisions_none)

lemma substeps_collisionFree:
  "collisionFree dt n w \<Longrightarrow> (substep dt ^^ n) w = (integrate dt ^^ n) w"
proof (induction n arbitrary: w)
  case 0
  then show ?case by simp
next
  case (Suc n)
  then have "substep dt w = integrate dt w" and "collisionFree dt n (integrate dt w)"
    by (simp_all add: substep_none)
  with Suc.IH [of "integrate dt w"] show ?case
    by (simp only: funpow_Suc_right o_apply)
qed

lemma vzero_vadd: "vadd vzero v = v"
  by (simp add: vadd_def vzero_def)

lemma gravitationalForce_acceleration:
  "gravitationalForce (a\<lparr>acceleration := x\<rparr>) b = gravitationalForce a b"
  "gravitationalForce a (b\<lparr>acceleration := x\<rparr>) = gravitationalForce a b"
  by (simp_all add: gravitationalForce_def)

lemma integrate_two:
  assumes "objects w = [a, b]" "\<not> fixed a" "\<not> fixed b" "\<not> isPaused w"
  shows "\<exists>a' b'. objects (integrate dt w) = [a', b']
       \<and> \<not> fixed a' \<and> \<not> fixed b' \<and> mass a' = mass a \<and> mass b' = mass b
       \<and> radius a' = radius a \<and> radius b' = radius b
       \<and> velocity a' = vadd (velocity a) (smul (pull a b) (actualDt dt))
       \<and> velocity b' = vadd (velocity b) (smul (pull b a) (actualDt dt))
       \<and> \<not> isPaused (integrate dt w)"
  using assms
  by (simp add: integrate_def updatePositions_def updateAt_def updatePosition_def
      calculateForces_def forcesOn_def calculateGravitationalForce_def applyForce_def
      resetAccelerations_def Let_def upt_2 vzero_vadd gravitationalForce_acceleration
      pull_def)

lemma gravitationalForce_opposite:
  "gravitationalForce b a = smul (gravitationalForce a b) (- 1)"
proof -
  let ?d = "vsub (position b) (position a)"
  have sw: "vsub (position a) (position b) = smul ?d (- 1)"
    by (simp add: vsub_def smul_def)
  have dd: "dot (smul ?d (- 1)) (smul ?d (- 1)) = dot ?d ?d"
    by (simp add: dot_def smul_def)
  have r: "radius b + radius a = radius a + radius b" by simp
  show ?thesis
    unfolding gravitationalForce_def Let_def sw vlength_def normalize_vec_def dd r
    by (simp add: smul_def mult.commute mult.left_commute)
qed

lemma pull_opposite:
  assumes "mass a \<noteq> 0" "mass b \<noteq> 0"
  shows "vadd (smul (pull a b) (mass a)) (smul (pull b a) (mass b)) = vzero"
  using assms
  by (simp add: pull_def gravitationalForce_opposite [of b a] vadd_def smul_def sdiv_def
      vzero_def)

lemma momentum_two:
  "momentum [a, b] = vadd (smul (velocity a) (mass a)) (smul (velocity b) (mass b))"
  by (simp add: momentum_def vzero_vadd)

lemma kick_component:
  fixes x y :: real
  assumes "x * ma + y * mb = 0"
  shows "(u + x * t) * ma + (v + y * t) * mb = u * ma + v * mb"
proof -
  have "(u + x * t) * ma + (v + y * t) * mb = (u * ma + v * mb) + t * (x * ma + y * mb)"
    by (simp add: algebra_simps)
  then show ?thesis using assms by simp
qed

lemma momentum_kick:
  assumes "vadd (smul pa ma) (smul pb mb) = vzero"
  shows "vadd (smul (vadd va (smul pa t)) ma) (smul (vadd vb (smul pb t)) mb)
       = vadd (smul va ma) (smul vb mb)"
proof -
  from assms have "vx pa * ma + vx pb * mb = 0" "vy pa * ma + vy pb * mb = 0"
    "vz pa * ma + vz pb * mb = 0"
    by (simp_all add: vadd_def smul_def vzero_def)
  then show ?thesis
    by (simp add: vadd_def smul_def kick_component)
qed

lemma integrate_momentum:
  assumes "objects w = [a, b]" "\<not> fixed a" "\<not> fixed b" "\<not> isPaused w"
    "0 < mass a" "0 < mass b"
  shows "\<exists>a' b'. objects (integrate dt w) = [a', b']
       \<and> \<not> fixed a' \<and> \<not> fixed b' \<and> \<not> isPaused (integrate dt w)
       \<and> mass a' = mass a \<and> mass b' = mass b
       \<and> radius a' = radius a \<and> radius b' = radius b
       \<and> momentum [a', b'] = momentum [a, b]"
proof -
  from integrate_two [OF assms(1-4), of dt]
  obtain a' b' where ab: "objects (integrate dt w) = [a', b']"
    "\<not> fixed a'" "\<not> fixed b'" "mass a' = mass a" "mass b' = mass b"
    "radius a' = radius a" "radius b' = radius b"
    "velocity a' = vadd (velocity a) (smul (pull a b) (actualDt dt))"
    "velocity b' = vadd (velocity b) (smul (pull b a) (actualDt dt))"
    "\<not> isPaused (integrate dt w)"
    by blast
  have "vadd (smul (pull a b) (mass a)) (smul (pull b a) (mass b)) = vzero"
    using assms by (intro pull_opposite) simp_all
  then have "momentum [a', b'] = momentum [a, b]"
    by (simp only: momentum_two ab momentum_kick)
  then show ?thesis using ab by simp
qed

lemma integrates_momentum:
  assumes "objects w = [a, b]" "\<not> fixed a" "\<not> fixed b" "\<not> isPaused w"
    "0 < mass a" "0 < mass b"
  shows "\<exists>a' b'. objects ((integrate dt ^^ n) w) = [a', b']
       \<and> \<not> fixed a' \<and> \<not> fixed b' \<and> \<not> isPaused ((integrate dt ^^ n) w)
       \<and> mass a' = mass a \<and> mass b' = mass b
       \<and> radius a' = radius a \<and> radius b' = radius b
       \<and> momentum [a', b'] = momentum [a, b]"
proof (induction n)
  case 0
  then show ?case using assms by simp
next
  case (Suc n)
  then obtain a1 b1 where s: "objects ((integrate dt ^^ n) w) = [a1, b1]"
    "\<not> fixed a1" "\<not> fixed b1" "\<not> isPaused ((integrate dt ^^ n) w)"
    and e: "mass a1 = mass a" "mass b1 = mass b" "radius a1 = radius a" "radius b1 = radius b"
      "momentum [a1, b1] = momentum [a, b]"
    by blast
  have p: "0 < mass a1" "0 < mass b1"
    using assms e by simp_all
  from integrate_momentum [OF s p, of dt] e show ?case
    by auto
qed

lemma separated_distinct:
  assumes "\<not> CheckCollision a b" "0 \<le> radius a + radius b"
  shows "position b \<noteq> position a"
proof
  assume "position b = position a"
  then have "vlength (vsub (position b) (position a)) = 0"
    by (simp add: vsub_def vlength_def dot_def)
  with assms show False by (simp add: CheckCollision_def)
qed

lemma anyCollision_two: "anyCollision [a, b] = CheckCollision a b"
  by (simp add: anyCollision_def upt_2)

lemma collisionFree_later:
  "collisionFree dt n w \<Longrightarrow> k < n \<Longrightarrow> \<not> anyCollision (objects ((integrate dt ^^ Suc k) w))"
proof (induction n arbitrary: w k)
  case 0
  then show ?case by simp
next
  case (Suc n)
  show ?case
  proof (cases k)
    case 0
    then show ?thesis using Suc.prems by simp
  next
    case (Suc k')
    with Suc.prems have "collisionFree dt n (integrate dt w)" "k' < n"
      by simp_all
    then have "\<not> anyCollision (objects ((integrate dt ^^ Suc k') (integrate dt w)))"
      by (rule Suc.IH)
    moreover have "(integrate dt ^^ Suc k') (integrate dt w) = (integrate dt ^^ Suc k) w"
      unfolding Suc by (simp only: funpow_Suc_right o_apply)
    ultimately show ?thesis by simp
  qed
qed

lemma collisionFree_prefix:
  "collisionFree dt n w \<Longrightarrow> k \<le> n \<Longrightarrow> collisionFree dt k w"
proof (induction n arbitrary: w k)
  case 0
  then show ?case by simp
next
  case (Suc n)
  show ?case
  proof (cases k)
    case 0
    then show ?thesis by simp
  next
    case (Suc k')
    with Suc.prems have "collisionFree dt n (integrate dt w)" "k' \<le> n"
      by simp_all
    then have "collisionFree dt k' (integrate dt w)"
      by (rule Suc.IH)
    then show ?thesis
      using Suc Suc.prems by simp
  qed
qed

lemma centres_distinct:
  assumes "objects w = [a, b]" and "\<not> fixed a" and "\<not> fixed b" and "\<not> isPaused w"
    and "0 < mass a" and "0 < mass b" and "0 < radius a" and "0 < radius b"
    and "\<not> CheckCollision a b"
    and "collisionFree dt n w" and "k < n"
  shows "\<exists>a' b'. objects ((substep dt ^^ k) w) = [a', b'] \<and> position b' \<noteq> position a'"
proof -
  have "collisionFree dt k w"
    using assms(10) by (rule collisionFree_prefix) (use assms(11) in simp)
  then have same: "(substep dt ^^ k) w = (integrate dt ^^ k) w"
    by (rule substeps_collisionFree)
  from integrates_momentum [OF assms(1-6), where dt = dt and n = k]
  obtain a' b' where ab: "objects ((integrate dt ^^ k) w) = [a', b']"
    "radius a' = radius a" "radius b' = radius b"
    by blast
  have "\<not> CheckCollision a' b'"
  proof (cases k)
    case 0
    then show ?thesis using ab(1) assms(1,9) by simp
  next
    case (Suc k')
    then have "k' < n" using assms(11) by simp
    with assms(10) have "\<not> anyCollision (objects ((integrate dt ^^ Suc k') w))"
      by (rule collisionFree_later)
    then show ?thesis
      using Suc ab(1) by (simp add: anyCollision_two)
  qed
  moreover have "0 \<le> radius a' + radius b'"
    using ab assms(7,8) by simp
  ultimately have "position b' \<noteq> position a'"
    by (rule separated_distinct)
  then show ?thesis using same ab(1) by simp
qed

text \<open>
  Claim C3. In a world of two bodies, neither fixed, of positive masses and radii, that do
  not overlap when the frame begins and of which no substep of the frame detects a
  collision, the sum of mass times velocity over the two bodies is the same after the
  frame as before it. Under these hypotheses the two centres are distinct at the start of
  every substep, so the direction between them, which the force normalises, is never the
  zero vector.
\<close>

theorem momentum_conserved:
  assumes "objects w = [a, b]" and "\<not> fixed a" and "\<not> fixed b"
    and "0 < mass a" and "0 < mass b" and "0 < radius a" and "0 < radius b"
    and "\<not> CheckCollision a b"
    and "collisionFree (physicsTimeStep deltaTime) (nat (physicsSteps deltaTime)) w"
  shows "momentum (objects (tick w deltaTime)) = momentum (objects w)
       \<and> (\<not> isPaused w \<longrightarrow>
            (\<forall>k < nat (physicsSteps deltaTime).
               \<exists>a' b'. objects ((substep (physicsTimeStep deltaTime) ^^ k) w) = [a', b']
                  \<and> position b' \<noteq> position a'))"
proof (cases "isPaused w")
  case True
  then show ?thesis by (simp add: tick_def)
next
  case False
  let ?dt = "physicsTimeStep deltaTime" and ?n = "nat (physicsSteps deltaTime)"
  have "tick w deltaTime = (integrate ?dt ^^ ?n) w"
    using False assms(9) by (simp add: tick_def substeps_collisionFree)
  moreover
  from integrates_momentum [OF assms(1-3) False assms(4,5), where dt = ?dt and n = ?n]
  have "momentum (objects ((integrate ?dt ^^ ?n) w)) = momentum [a, b]"
    by auto
  ultimately have m: "momentum (objects (tick w deltaTime)) = momentum (objects w)"
    using assms(1) by simp
  have "\<exists>a' b'. objects ((substep ?dt ^^ k) w) = [a', b'] \<and> position b' \<noteq> position a'"
    if "k < ?n" for k
    using assms(1-3) False assms(4-9) that by (rule centres_distinct)
  with m show ?thesis by simp
qed

lemma duo_free: "collisionFree (physicsTimeStep (1 / 2000)) (nat (physicsSteps (1 / 2000))) duo"
proof -
  have "\<not> anyCollision (objects (integrate (1 / 2000) duo))"
    by (simp add: anyCollision_def CheckCollision_def integrate_def
        updatePositions_def updateAt_def updatePosition_def calculateForces_def forcesOn_def
        calculateGravitationalForce_def applyForce_def gravitationalForce_def
        resetAccelerations_def Let_def upt_2 duo_def scene_def ball_def new_Object3D_def vsub_def
        vlength_x_axis normalize_x_axis normalize_x_axis_neg vadd_def smul_def sdiv_def
        vzero_def actualDt_def MAX_TIMESTEP_def G_def)
  then show ?thesis
    by (simp add: steps_half physicsTimeStep_def simulationSpeed_def)
qed

theorem momentum_conserved_witness:
  "objects duo = [ball 0 (Vec3 (- 1) 0 0), ball 10 (Vec3 3 0 0)]
   \<and> \<not> CheckCollision (ball 0 (Vec3 (- 1) 0 0)) (ball 10 (Vec3 3 0 0))
   \<and> collisionFree (physicsTimeStep (1 / 2000)) (nat (physicsSteps (1 / 2000))) duo
   \<and> momentum (objects duo) = Vec3 20 0 0
   \<and> momentum (objects (tick duo (1 / 2000))) = Vec3 20 0 0"
proof -
  let ?a = "ball 0 (Vec3 (- 1) 0 0)" and ?b = "ball 10 (Vec3 3 0 0)"
  have o: "objects duo = [?a, ?b]"
    by (simp add: duo_def scene_def)
  have h: "\<not> fixed ?a" "\<not> fixed ?b" "0 < mass ?a" "0 < mass ?b" "0 < radius ?a" "0 < radius ?b"
    by (simp_all add: ball_def new_Object3D_def)
  have c: "\<not> CheckCollision ?a ?b"
    by (simp add: CheckCollision_def ball_def new_Object3D_def vsub_def vlength_x_axis)
  have m: "momentum (objects duo) = Vec3 20 0 0"
    by (simp add: o momentum_two) (simp add: ball_def new_Object3D_def vadd_def smul_def)
  from momentum_conserved [OF o h c duo_free]
  have "momentum (objects (tick duo (1 / 2000))) = momentum (objects duo)"
    by blast
  then show ?thesis
    using o c duo_free m by simp
qed

end
